theory Spec2Isabelle
  imports Complex_Main
begin

text \<open>
  A model of the scheduling and enrollment core of the eMadrasa server: the database
  layer of \<^verbatim>\<open>server/src/database.ts\<close>, the conflict detector and the room report of
  \<^verbatim>\<open>routes/schedule.ts\<close>, the enrollment handlers of \<^verbatim>\<open>routes/enrollments.ts\<close> and the
  class handlers of \<^verbatim>\<open>routes/classes.ts\<close>. The store is passed explicitly; an exception
  is an error value; a handler returns the store it leaves and its response.
\<close>

section \<open>Identifiers\<close>

text \<open>
  A document's \<^verbatim>\<open>_id\<close> is an ObjectId: twelve bytes, written as 24 hexadecimal digits.
  It is modelled by the natural number those digits denote.

  Every by-id operation of \<^verbatim>\<open>server/src/database.ts\<close> declares \<^verbatim>\<open>id: string | number\<close>,
  prints the value with \<^verbatim>\<open>toString()\<close> and asks the driver whether the text is an
  ObjectId. The handlers call these operations with what a request holds, a number or a
  string (a \<open>scalar\<close>; numbers are taken to be non-negative integers), and also with
  the reference fields of documents they have read. Such a field holds an ObjectId or,
  after \<^verbatim>\<open>populate\<close>, the referenced document (here with its \<^verbatim>\<open>_id\<close>): the
  \<^verbatim>\<open>toJSON\<close> methods of \<^verbatim>\<open>server/src/models\<close> replace \<^verbatim>\<open>_id\<close> by \<^verbatim>\<open>id\<close> and pass every
  other field on as it is.
\<close>

type_synonym oid = nat

datatype scalar = JNum nat | JStr string

datatype ident = Val scalar | Oid oid | Doc oid

abbreviation Num :: "nat \<Rightarrow> ident" where
  "Num n \<equiv> Val (JNum n)"

abbreviation Str :: "string \<Rightarrow> ident" where
  "Str s \<equiv> Val (JStr s)"

definition digitChar :: "nat \<Rightarrow> char" where
  "digitChar d = ''0123456789'' ! d"

text \<open>
  \<^verbatim>\<open>Number.prototype.toString\<close> on a non-negative integer: plain decimal digits.
  (JavaScript keeps this form below \<open>10^21\<close>; the identifiers of this application
  are far smaller.)
\<close>

fun decimal :: "nat \<Rightarrow> string" where
  "decimal n = (if n < 10 then [digitChar n] else decimal (n div 10) @ [digitChar (n mod 10)])"

declare decimal.simps [simp del]

definition hexChar :: "nat \<Rightarrow> char" where
  "hexChar d = ''0123456789abcdef'' ! d"

text \<open>\<^verbatim>\<open>ObjectId.prototype.toString\<close>: the 24 hexadecimal digits.\<close>

definition hexText :: "oid \<Rightarrow> string" where
  "hexText i = map (\<lambda>k. hexChar (i div 16 ^ k mod 16)) (rev [0..<24])"

text \<open>A plain object, such as a populated document, prints as \<^verbatim>\<open>[object Object]\<close>.\<close>

fun idToString :: "ident \<Rightarrow> string" where
  "idToString (Num n) = decimal n"
| "idToString (Str s) = s"
| "idToString (Oid i) = hexText i"
| "idToString (Doc i) = ''[object Object]''"

definition hexDigit :: "char \<Rightarrow> nat option" where
  "hexDigit c =
     (let k = of_char c :: nat in
      if 48 \<le> k \<and> k \<le> 57 then Some (k - 48)
      else if 97 \<le> k \<and> k \<le> 102 then Some (k - 87)
      else if 65 \<le> k \<and> k \<le> 70 then Some (k - 55)
      else None)"

text \<open>
  \<^verbatim>\<open>mongoose.Types.ObjectId.isValid\<close> on a string: 24 hexadecimal digits or, as the
  drivers have long had it, any twelve characters (read as the twelve bytes).
\<close>

definition objectIdIsValid :: "string \<Rightarrow> bool" where
  "objectIdIsValid s = (length s = 12 \<or> (length s = 24 \<and> list_all (\<lambda>c. hexDigit c \<noteq> None) s))"

text \<open>\<^verbatim>\<open>new mongoose.Types.ObjectId(s)\<close> for a valid \<open>s\<close>: the value of the digits or bytes.\<close>

definition toObjectId :: "string \<Rightarrow> oid" where
  "toObjectId s =
     (if length s = 12 then foldl (\<lambda>a c. 256 * a + of_char c) 0 s
      else foldl (\<lambda>a c. 16 * a + (case hexDigit c of Some d \<Rightarrow> d | None \<Rightarrow> 0)) 0 s)"

text \<open>
  The \<^verbatim>\<open>toJSON\<close> method of every model replaces \<^verbatim>\<open>_id\<close> by
  \<^verbatim>\<open>id: parseInt(_id.toString().slice(-8), 16)\<close>: the last eight hexadecimal digits
  read as a number, that is the ObjectId modulo \<open>2^32\<close>.
\<close>

definition jsonId :: "oid \<Rightarrow> nat" where
  "jsonId i = i mod 2 ^ 32"

section \<open>The database layer\<close>

text \<open>
  A collection is the list of its documents in natural (insertion) order, each a pair
  of its \<^verbatim>\<open>_id\<close> and its fields. \<^verbatim>\<open>Model.findOne({})\<close> returns the first one.
\<close>

type_synonym 'a collection = "(oid \<times> 'a) list"

datatype dbError = DuplicateKey | NoDocuments | CastError | ValidationError | TypeError

definition findOne :: "'a collection \<Rightarrow> (oid \<times> 'a) option" where
  "findOne c = (case c of [] \<Rightarrow> None | d # _ \<Rightarrow> Some d)"

definition findById :: "'a collection \<Rightarrow> oid \<Rightarrow> (oid \<times> 'a) option" where
  "findById c i = find (\<lambda>d. fst d = i) c"

definition getAll :: "'a collection \<Rightarrow> (oid \<times> 'a) list" where
  "getAll c = c"

text \<open>
  \<^verbatim>\<open>getById\<close>: a valid id is looked up; any other id takes the branch commented
  ``For backwards compatibility with integer IDs'', which is \<^verbatim>\<open>Model.findOne({})\<close>.
\<close>

definition getById :: "'a collection \<Rightarrow> ident \<Rightarrow> (oid \<times> 'a) option" where
  "getById c i =
     (if objectIdIsValid (idToString i) then findById c (toObjectId (idToString i))
      else findOne c)"

text \<open>
  A unique index is given by the relation ``these two documents collide''. A write that
  would leave two colliding documents in the collection is refused by the store
  (\<open>DuplicateKey\<close>), which the caller sees as a thrown exception.
\<close>

type_synonym 'a uniqueIndex = "'a \<Rightarrow> 'a \<Rightarrow> bool"

definition noIndex :: "'a uniqueIndex" where
  "noIndex a b = False"

text \<open>\<^verbatim>\<open>create\<close>: \<^verbatim>\<open>new Model(item).save()\<close>; the new document goes last.\<close>

definition create :: "'a uniqueIndex \<Rightarrow> 'a collection \<Rightarrow> oid \<Rightarrow> 'a \<Rightarrow> dbError + 'a collection" where
  "create ix c i item =
     (if list_ex (\<lambda>d. ix (snd d) item) c then Inl DuplicateKey else Inr (c @ [(i, item)]))"

fun replaceFirst :: "oid \<Rightarrow> 'a \<Rightarrow> 'a collection \<Rightarrow> 'a collection" where
  "replaceFirst i v [] = []"
| "replaceFirst i v (d # ds) = (if fst d = i then (i, v) # ds else d # replaceFirst i v ds)"

fun removeFirst :: "oid \<Rightarrow> 'a collection \<Rightarrow> 'a collection" where
  "removeFirst i [] = []"
| "removeFirst i (d # ds) = (if fst d = i then ds else d # removeFirst i ds)"

text \<open>
  \<^verbatim>\<open>Model.findOneAndUpdate({_id: i}, {$set: updates}, {new: true})\<close>. The driver first
  casts the updates to the schema and throws when a value does not fit; \<open>updates\<close> is
  the outcome of that cast, an error or what the \<^verbatim>\<open>$set\<close> does to a document. Then the
  first document with that \<^verbatim>\<open>_id\<close> gets the updates; the result is the updated
  document, or nothing when no document matches.
\<close>

definition findOneAndUpdate ::
  "'a uniqueIndex \<Rightarrow> 'a collection \<Rightarrow> oid \<Rightarrow> dbError + ('a \<Rightarrow> 'a) \<Rightarrow>
     dbError + ('a collection \<times> (oid \<times> 'a) option)" where
  "findOneAndUpdate ix c i updates =
     (case updates of
        Inl e \<Rightarrow> Inl e
      | Inr f \<Rightarrow>
     (case findById c i of
        None \<Rightarrow> Inr (c, None)
      | Some d \<Rightarrow>
          if list_ex (\<lambda>e. ix (snd e) (f (snd d))) (removeFirst i c) then Inl DuplicateKey
          else Inr (replaceFirst i (f (snd d)) c, Some (i, f (snd d)))))"

text \<open>
  \<^verbatim>\<open>update\<close>: for an id that is no ObjectId, ``For backwards compatibility'', the first
  document is looked up and updated; without one the result is \<^verbatim>\<open>undefined\<close>.
\<close>

definition update ::
  "'a uniqueIndex \<Rightarrow> 'a collection \<Rightarrow> ident \<Rightarrow> dbError + ('a \<Rightarrow> 'a) \<Rightarrow>
     dbError + ('a collection \<times> (oid \<times> 'a) option)" where
  "update ix c i updates =
     (if objectIdIsValid (idToString i) then findOneAndUpdate ix c (toObjectId (idToString i)) updates
      else (case findOne c of
              None \<Rightarrow> Inr (c, None)
            | Some d \<Rightarrow> findOneAndUpdate ix c (fst d) updates))"

text \<open>\<^verbatim>\<open>Model.deleteOne({_id: i})\<close> with \<^verbatim>\<open>deletedCount > 0\<close>.\<close>

definition deleteOne :: "'a collection \<Rightarrow> oid \<Rightarrow> 'a collection \<times> bool" where
  "deleteOne c i = (removeFirst i c, findById c i \<noteq> None)"

definition delete :: "'a collection \<Rightarrow> ident \<Rightarrow> 'a collection \<times> bool" where
  "delete c i =
     (if objectIdIsValid (idToString i) then deleteOne c (toObjectId (idToString i))
      else (case findOne c of
              None \<Rightarrow> (c, False)
            | Some d \<Rightarrow> deleteOne c (fst d)))"

text \<open>
  \<^verbatim>\<open>getObjectId\<close>: the ObjectId of a valid id, else (``For backwards compatibility,
  find first document'') the \<^verbatim>\<open>_id\<close> of the first document, else an exception.
\<close>

definition getObjectId :: "'a collection \<Rightarrow> ident \<Rightarrow> dbError + oid" where
  "getObjectId c i =
     (if objectIdIsValid (idToString i) then Inr (toObjectId (idToString i))
      else (case findOne c of None \<Rightarrow> Inl NoDocuments | Some d \<Rightarrow> Inr (fst d)))"

section \<open>Documents and the store\<close>

text \<open>
  The fields follow the Mongoose schemas of \<^verbatim>\<open>server/src/models\<close>. A reference to another
  document is declared there as \<^verbatim>\<open>mongoose.Schema.Types.ObjectId\<close>, so a stored reference
  is the \<^verbatim>\<open>_id\<close> of the document it refers to (which may be gone by now). Fields that no
  handler below reads or writes are left out.
\<close>

record school =
  schoolName :: string

record teacher =
  teacherName :: string
  schoolIds :: "oid list"

record subject =
  subjectName :: string

record student =
  studentName :: string
  fullName :: string

text \<open>An item of the \<^verbatim>\<open>schedule\<close> array that a class document embeds.\<close>

record embeddedItem =
  embeddedSubjectId :: oid
  embeddedDayOfWeek :: nat
  embeddedStartTime :: string
  embeddedEndTime :: string
  embeddedRoom :: "string option"

record classDoc =
  className :: string
  schoolId :: oid
  teacherId :: "oid option"
  subjectIds :: "oid list"
  primarySubjectId :: "oid option"
  maxStudents :: nat
  currentStudents :: nat
  classYear :: string
  embeddedSchedule :: "embeddedItem list"

datatype enrollmentStatus = Active | Inactive | Transferred | Graduated

text \<open>
  An enrollment and a schedule entry. The type of the two references is a parameter: an
  ObjectId in the stored document, and in the value that \<^verbatim>\<open>toJSON\<close> gives to a handler
  whatever the reference field then holds (see \<open>populate\<close> below). The date of an
  enrollment is the day, as \<^verbatim>\<open>toISOString().split('T')[0]\<close> prints it.
\<close>

record 'r enrollment =
  studentId :: 'r
  classId :: 'r
  enrollmentDate :: string
  status :: enrollmentStatus
  academicYear :: string

record 'r classSchedule =
  scheduleClassId :: 'r
  subjectId :: 'r
  dayOfWeek :: nat
  startTime :: string
  endTime :: string
  room :: "string option"

record store =
  schools :: "school collection"
  teachers :: "teacher collection"
  subjects :: "subject collection"
  classes :: "classDoc collection"
  students :: "student collection"
  enrollments :: "oid enrollment collection"
  schedules :: "oid classSchedule collection"
  nextId :: oid

text \<open>
  The unique indexes of \<^verbatim>\<open>models/Enrollment.ts\<close>
  (\<^verbatim>\<open>{studentId: 1, classId: 1, status: 1}\<close>) and \<^verbatim>\<open>models/ClassSchedule.ts\<close>
  (\<^verbatim>\<open>{classId: 1, dayOfWeek: 1, startTime: 1}\<close>).
\<close>

definition enrollmentIndex :: "(oid enrollment) uniqueIndex" where
  "enrollmentIndex a b =
     (studentId a = studentId b \<and> classId a = classId b \<and> status a = status b)"

definition scheduleIndex :: "(oid classSchedule) uniqueIndex" where
  "scheduleIndex a b =
     (scheduleClassId a = scheduleClassId b \<and> dayOfWeek a = dayOfWeek b \<and> startTime a = startTime b)"

section \<open>What a handler sees of a reference\<close>

text \<open>
  The queries of \<^verbatim>\<open>database.ts\<close> (\<^verbatim>\<open>getAll\<close>, \<^verbatim>\<open>getById\<close>, \<^verbatim>\<open>update\<close> and the
  \<^verbatim>\<open>get...By...Id\<close> functions) end in \<^verbatim>\<open>.populate(...)\<close> for the reference fields of
  classes, teachers, enrollments and schedule entries: the field then holds the
  referenced document, or \<^verbatim>\<open>null\<close> (\<open>None\<close>) when there is none. For a list of
  references the documents that exist are kept.
\<close>

definition populate :: "'a collection \<Rightarrow> oid \<Rightarrow> ident option" where
  "populate c r = (case findById c r of None \<Rightarrow> None | Some d \<Rightarrow> Some (Doc (fst d)))"

definition populateAll :: "'a collection \<Rightarrow> oid list \<Rightarrow> ident list" where
  "populateAll c rs = map Doc (filter (\<lambda>r. findById c r \<noteq> None) rs)"

text \<open>
  \<^verbatim>\<open>toJSON\<close> of an enrollment and of a schedule entry that a query has read, and of the
  enrollment that \<^verbatim>\<open>database.create\<close> has just saved, whose references are ObjectIds.
\<close>

definition enrollmentJSON :: "store \<Rightarrow> oid \<times> oid enrollment \<Rightarrow> nat \<times> ident option enrollment" where
  "enrollmentJSON st d =
     (jsonId (fst d),
      \<lparr>studentId = populate (students st) (studentId (snd d)),
       classId = populate (classes st) (classId (snd d)),
       enrollmentDate = enrollmentDate (snd d), status = status (snd d),
       academicYear = academicYear (snd d)\<rparr>)"

definition savedJSON :: "oid \<times> oid enrollment \<Rightarrow> nat \<times> ident option enrollment" where
  "savedJSON d =
     (jsonId (fst d),
      \<lparr>studentId = Some (Oid (studentId (snd d))), classId = Some (Oid (classId (snd d))),
       enrollmentDate = enrollmentDate (snd d), status = status (snd d),
       academicYear = academicYear (snd d)\<rparr>)"

definition scheduleJSON :: "store \<Rightarrow> oid \<times> oid classSchedule \<Rightarrow> nat \<times> ident option classSchedule" where
  "scheduleJSON st d =
     (jsonId (fst d),
      \<lparr>scheduleClassId = populate (classes st) (scheduleClassId (snd d)),
       subjectId = populate (subjects st) (subjectId (snd d)),
       dayOfWeek = dayOfWeek (snd d), startTime = startTime (snd d), endTime = endTime (snd d),
       room = room (snd d)\<rparr>)"

text \<open>The reference fields of a class that a query has read.\<close>

definition classSchool :: "store \<Rightarrow> oid \<times> classDoc \<Rightarrow> ident option" where
  "classSchool st cls = populate (schools st) (schoolId (snd cls))"

definition classTeacher :: "store \<Rightarrow> oid \<times> classDoc \<Rightarrow> ident option" where
  "classTeacher st cls =
     (case teacherId (snd cls) of None \<Rightarrow> None | Some t \<Rightarrow> populate (teachers st) t)"

definition classPrimarySubject :: "store \<Rightarrow> oid \<times> classDoc \<Rightarrow> ident option" where
  "classPrimarySubject st cls =
     (case primarySubjectId (snd cls) of None \<Rightarrow> None | Some p \<Rightarrow> populate (subjects st) p)"

text \<open>
  A value given for a reference field when a document is saved or updated: an ObjectId
  stays, a document stands for its \<^verbatim>\<open>_id\<close>, and anything else must print as an
  ObjectId, or the driver refuses the write with a cast error.
\<close>

fun castObjectId :: "ident \<Rightarrow> dbError + oid" where
  "castObjectId (Oid i) = Inr i"
| "castObjectId (Doc i) = Inr i"
| "castObjectId (Num n) =
     (if objectIdIsValid (decimal n) then Inr (toObjectId (decimal n)) else Inl CastError)"
| "castObjectId (Str s) = (if objectIdIsValid s then Inr (toObjectId s) else Inl CastError)"

text \<open>The same for a list of references: the first failure, or all the ObjectIds.\<close>

fun castObjectIds :: "ident list \<Rightarrow> dbError + oid list" where
  "castObjectIds [] = Inr []"
| "castObjectIds (v # vs) =
     (case castObjectId v of
        Inl e \<Rightarrow> Inl e
      | Inr i \<Rightarrow> (case castObjectIds vs of Inl e \<Rightarrow> Inl e | Inr is \<Rightarrow> Inr (i # is)))"

section \<open>JavaScript values\<close>

text \<open>
  \<^verbatim>\<open>a === b\<close> on two values that are not \<^verbatim>\<open>null\<close>: numbers and strings are compared by
  value; an object (an ObjectId, a document) is equal to itself only, and the results of
  two queries share no object.
\<close>

fun strictEquals :: "ident \<Rightarrow> ident \<Rightarrow> bool" where
  "strictEquals (Num a) (Num b) = (a = b)"
| "strictEquals (Str a) (Str b) = (a = b)"
| "strictEquals _ _ = False"

text \<open>The same on values that may be \<^verbatim>\<open>null\<close>.\<close>

fun sameValue :: "ident option \<Rightarrow> ident option \<Rightarrow> bool" where
  "sameValue None None = True"
| "sameValue (Some a) (Some b) = strictEquals a b"
| "sameValue _ _ = False"

text \<open>\<^verbatim>\<open>!v\<close>: zero and the empty string are falsy, every object is truthy.\<close>

fun falsy :: "ident \<Rightarrow> bool" where
  "falsy (Num n) = (n = 0)"
| "falsy (Str s) = (s = [])"
| "falsy _ = False"

text \<open>
  An optional string is truthy when it is present and not empty, an optional number
  when it is present and not zero. \<open>orElse\<close> is \<^verbatim>\<open>s || d\<close> on strings.
\<close>

definition truthyString :: "string option \<Rightarrow> bool" where
  "truthyString r = (case r of None \<Rightarrow> False | Some s \<Rightarrow> s \<noteq> [])"

definition truthyNumber :: "nat option \<Rightarrow> bool" where
  "truthyNumber r = (case r of None \<Rightarrow> False | Some n \<Rightarrow> n \<noteq> 0)"

definition orElse :: "string \<Rightarrow> string \<Rightarrow> string" where
  "orElse s d = (if s = [] then d else s)"

text \<open>
  A text is a list of characters of Isabelle/HOL, that is of the code units below 256:
  ASCII and Latin-1. \<^verbatim>\<open>String.prototype.toLowerCase\<close> is given on these: the letters
  \<^verbatim>\<open>A\<close> to \<^verbatim>\<open>Z\<close> and the capital letters of Latin-1 (\<^verbatim>\<open>U+00C0\<close> to \<^verbatim>\<open>U+00DE\<close> without
  the multiplication sign) move up by 32. Texts with other letters are outside the model.
\<close>

definition upperLetters :: string where
  "upperLetters =
     ''ABCDEFGHIJKLMNOPQRSTUVWXYZ'' @
     [CHR 0xC0, CHR 0xC1, CHR 0xC2, CHR 0xC3, CHR 0xC4, CHR 0xC5, CHR 0xC6, CHR 0xC7,
      CHR 0xC8, CHR 0xC9, CHR 0xCA, CHR 0xCB, CHR 0xCC, CHR 0xCD, CHR 0xCE, CHR 0xCF,
      CHR 0xD0, CHR 0xD1, CHR 0xD2, CHR 0xD3, CHR 0xD4, CHR 0xD5, CHR 0xD6, CHR 0xD8,
      CHR 0xD9, CHR 0xDA, CHR 0xDB, CHR 0xDC, CHR 0xDD, CHR 0xDE]"

definition lowerLetters :: string where
  "lowerLetters =
     ''abcdefghijklmnopqrstuvwxyz'' @
     [CHR 0xE0, CHR 0xE1, CHR 0xE2, CHR 0xE3, CHR 0xE4, CHR 0xE5, CHR 0xE6, CHR 0xE7,
      CHR 0xE8, CHR 0xE9, CHR 0xEA, CHR 0xEB, CHR 0xEC, CHR 0xED, CHR 0xEE, CHR 0xEF,
      CHR 0xF0, CHR 0xF1, CHR 0xF2, CHR 0xF3, CHR 0xF4, CHR 0xF5, CHR 0xF6, CHR 0xF8,
      CHR 0xF9, CHR 0xFA, CHR 0xFB, CHR 0xFC, CHR 0xFD, CHR 0xFE]"

definition lowerChar :: "char \<Rightarrow> char" where
  "lowerChar c = (case map_of (zip upperLetters lowerLetters) c of None \<Rightarrow> c | Some l \<Rightarrow> l)"

definition toLowerCase :: "string \<Rightarrow> string" where
  "toLowerCase s = map lowerChar s"

text \<open>\<^verbatim>\<open>String.prototype.trim\<close>, on the ASCII white space characters.\<close>

definition isSpace :: "char \<Rightarrow> bool" where
  "isSpace c = (let k = of_char c :: nat in k = 32 \<or> (9 \<le> k \<and> k \<le> 13))"

definition trim :: "string \<Rightarrow> string" where
  "trim s = rev (dropWhile isSpace (rev (dropWhile isSpace s)))"

text \<open>
  A JavaScript number is a double. The finite doubles are modelled by the real numbers
  they denote; \<open>roundDouble\<close> is the rounding that every arithmetic operation ends
  with: to the nearest number with a mantissa of 53 bits, a tie going to the even
  mantissa. \<open>normalize\<close> scales the absolute value into the range of such a mantissa.
  (Overflow and the subnormal numbers are left out: a value that 2200 scalings do not
  bring into the range stays as it is.) \<^verbatim>\<open>NaN\<close> is \<open>None\<close>.
\<close>

definition roundHalfEven :: "real \<Rightarrow> int" where
  "roundHalfEven y =
     (let f = \<lfloor>y\<rfloor>; r = y - of_int f
      in if r < 1 / 2 then f else if 1 / 2 < r then f + 1 else if even f then f else f + 1)"

fun normalize :: "nat \<Rightarrow> real \<Rightarrow> int \<Rightarrow> real \<times> int" where
  "normalize 0 y k = (y, k)"
| "normalize (Suc n) y k =
     (if y < 2 ^ 52 then normalize n (2 * y) (k - 1)
      else if 2 ^ 53 \<le> y then normalize n (y / 2) (k + 1)
      else (y, k))"

definition roundDouble :: "real \<Rightarrow> real" where
  "roundDouble x =
     (case normalize 2200 \<bar>x\<bar> 0 of
        (y, k) \<Rightarrow>
          if 2 ^ 52 \<le> y \<and> y < 2 ^ 53
          then sgn x * of_int (roundHalfEven y) * (if 0 \<le> k then 2 ^ nat k else 1 / 2 ^ nat (- k))
          else x)"

definition digitVal :: "char \<Rightarrow> nat option" where
  "digitVal c = (let k = of_char c :: nat in if 48 \<le> k \<and> k \<le> 57 then Some (k - 48) else None)"

text \<open>
  \<^verbatim>\<open>new Date(`1970-01-01T${t}:00`)\<close>: the date-time format wants two digits for the hour
  and two for the minute; the value is then a local time of that day, here in minutes
  after midnight. Any other text gives an Invalid Date (\<open>None\<close>).
\<close>

fun clockTime :: "string \<Rightarrow> nat option" where
  "clockTime [h1, h2, c, m1, m2] =
     (case (digitVal h1, digitVal h2, digitVal m1, digitVal m2) of
        (Some a, Some b, Some x, Some y) \<Rightarrow>
          (if c = CHR '':'' \<and> ((10 * a + b \<le> 23 \<and> 10 * x + y \<le> 59) \<or> (10 * a + b = 24 \<and> 10 * x + y = 0))
           then Some (60 * (10 * a + b) + (10 * x + y)) else None)
      | _ \<Rightarrow> None)"
| "clockTime _ = None"

text \<open>\<^verbatim>\<open><\<close> on two dates: false as soon as one of them is invalid.\<close>

definition dateLess :: "nat option \<Rightarrow> nat option \<Rightarrow> bool" where
  "dateLess a b = (case a of None \<Rightarrow> False | Some x \<Rightarrow> (case b of None \<Rightarrow> False | Some y \<Rightarrow> x < y))"

section \<open>The schedule conflict detector (\<^verbatim>\<open>routes/schedule.ts\<close>)\<close>

definition formatTimeRange :: "string \<Rightarrow> string \<Rightarrow> string" where
  "formatTimeRange s e = s @ '' - '' @ e"

text \<open>\<^verbatim>\<open>database.getAll("schedules")\<close>, as the handlers receive it.\<close>

definition allSchedules :: "store \<Rightarrow> (nat \<times> ident option classSchedule) list" where
  "allSchedules st = map (scheduleJSON st) (getAll (schedules st))"

text \<open>The overlap test inside the loop of \<^verbatim>\<open>checkScheduleConflicts\<close>.\<close>

definition overlaps :: "'a classSchedule \<Rightarrow> 'b classSchedule \<Rightarrow> bool" where
  "overlaps schedule existing =
     (let existingStart = clockTime (startTime existing);
          existingEnd = clockTime (endTime existing);
          newStart = clockTime (startTime schedule);
          newEnd = clockTime (endTime schedule)
      in dateLess newStart existingEnd \<and> dateLess existingStart newEnd)"

definition roomConflict ::
  "(oid \<times> classDoc) option \<Rightarrow> 'a classSchedule \<Rightarrow> 'b classSchedule \<Rightarrow> string list" where
  "roomConflict existingClass schedule existing =
     (case (room existing, room schedule) of
        (Some er, Some nr) \<Rightarrow>
          if er \<noteq> [] \<and> nr \<noteq> [] \<and> toLowerCase er = toLowerCase nr
          then [''Room conflict: '' @ nr @ '' is already booked at '' @
                formatTimeRange (startTime existing) (endTime existing) @ '' for class '' @
                (case existingClass of None \<Rightarrow> ''Unknown'' | Some c \<Rightarrow> orElse (className (snd c)) ''Unknown'')]
          else []
      | _ \<Rightarrow> [])"

text \<open>
  ``Teacher conflict (if same teacher)'': both classes have a \<^verbatim>\<open>teacherId\<close> that is
  truthy, and the two are \<^verbatim>\<open>===\<close>.
\<close>

definition teacherConflict ::
  "store \<Rightarrow> (oid \<times> classDoc) option \<Rightarrow> (oid \<times> classDoc) option \<Rightarrow> 'b classSchedule \<Rightarrow> string list" where
  "teacherConflict st existingClass newClass existing =
     (case (existingClass, newClass) of
        (Some ec, Some nc) \<Rightarrow>
          (case (classTeacher st ec, classTeacher st nc) of
             (Some et, Some nt) \<Rightarrow>
               if strictEquals et nt
               then [''Teacher conflict: '' @
                     (case getById (teachers st) et of
                        None \<Rightarrow> ''Unknown teacher''
                      | Some t \<Rightarrow> orElse (teacherName (snd t)) ''Unknown teacher'') @
                     '' is already scheduled at '' @
                     formatTimeRange (startTime existing) (endTime existing)]
               else []
           | _ \<Rightarrow> [])
      | _ \<Rightarrow> [])"

text \<open>
  What the loop does with an entry that overlaps the candidate. The two class lookups
  call \<^verbatim>\<open>id.toString()\<close> on the \<^verbatim>\<open>classId\<close> fields, which throws when one of them is
  \<^verbatim>\<open>null\<close>.
\<close>

definition conflictMessages ::
  "store \<Rightarrow> ident option classSchedule \<Rightarrow> ident option classSchedule \<Rightarrow> dbError + string list" where
  "conflictMessages st schedule existing =
     (case scheduleClassId existing of
        None \<Rightarrow> Inl TypeError
      | Some existingClassId \<Rightarrow>
     (case scheduleClassId schedule of
        None \<Rightarrow> Inl TypeError
      | Some newClassId \<Rightarrow>
          let existingClass = getById (classes st) existingClassId;
              newClass = getById (classes st) newClassId
          in Inr (roomConflict existingClass schedule existing @
                  teacherConflict st existingClass newClass existing)))"

definition conflictsWith ::
  "store \<Rightarrow> ident option classSchedule \<Rightarrow> ident option classSchedule \<Rightarrow> dbError + string list" where
  "conflictsWith st schedule existing =
     (if overlaps schedule existing then conflictMessages st schedule existing else Inr [])"

text \<open>The messages of a loop that an exception ends.\<close>

fun collect :: "('e + 'a list) list \<Rightarrow> 'e + 'a list" where
  "collect [] = Inr []"
| "collect (r # rs) =
     (case r of
        Inl e \<Rightarrow> Inl e
      | Inr xs \<Rightarrow> (case collect rs of Inl e \<Rightarrow> Inl e | Inr ys \<Rightarrow> Inr (xs @ ys)))"

definition checkScheduleConflicts ::
  "store \<Rightarrow> ident option classSchedule \<Rightarrow> nat option \<Rightarrow> dbError + string list" where
  "checkScheduleConflicts st schedule excludeId =
     (let sameDay = filter (\<lambda>s. dayOfWeek (snd s) = dayOfWeek schedule \<and> Some (fst s) \<noteq> excludeId)
                      (allSchedules st)
      in collect (map (\<lambda>existing. conflictsWith st schedule (snd existing)) sameDay))"

text \<open>
  The time of day that a text stands for, in minutes since midnight, read digit by digit
  and without any date arithmetic: two digits for the hour, or one, as the format check
  of the handlers (\<open>matchesTimeFormat\<close> below) admits, then a colon and two digits for
  the minute.
\<close>

definition digitOf :: "char \<Rightarrow> nat option" where
  "digitOf c = map_of (zip ''0123456789'' [0, 1, 2, 3, 4, 5, 6, 7, 8, 9]) c"

fun minutesSinceMidnight :: "string \<Rightarrow> nat option" where
  "minutesSinceMidnight [h1, h2, c, m1, m2] =
     (case (digitOf h1, digitOf h2, digitOf m1, digitOf m2) of
        (Some a, Some b, Some x, Some y) \<Rightarrow>
          if c = CHR '':'' \<and> 10 * a + b < 24 \<and> 10 * x + y < 60
          then Some (60 * (10 * a + b) + 10 * x + y) else None
      | _ \<Rightarrow> None)"
| "minutesSinceMidnight [h, c, m1, m2] =
     (case (digitOf h, digitOf m1, digitOf m2) of
        (Some a, Some x, Some y) \<Rightarrow>
          if c = CHR '':'' \<and> 10 * x + y < 60 then Some (60 * a + 10 * x + y) else None
      | _ \<Rightarrow> None)"
| "minutesSinceMidnight _ = None"

definition minutesOf :: "string \<Rightarrow> nat" where
  "minutesOf t = (case minutesSinceMidnight t of Some m \<Rightarrow> m | None \<Rightarrow> 0)"

text \<open>Both times of an entry are written with two digits for the hour: \<^verbatim>\<open>HH:MM\<close>.\<close>

definition twoDigitTimes :: "'i classSchedule \<Rightarrow> bool" where
  "twoDigitTimes s =
     (length (startTime s) = 5 \<and> minutesSinceMidnight (startTime s) \<noteq> None \<and>
      length (endTime s) = 5 \<and> minutesSinceMidnight (endTime s) \<noteq> None)"

text \<open>Both references of an entry lead to a document.\<close>

definition resolved :: "ident option classSchedule \<Rightarrow> bool" where
  "resolved s = (scheduleClassId s \<noteq> None \<and> subjectId s \<noteq> None)"

section \<open>Room utilization (\<^verbatim>\<open>getRoomUtilization\<close> in \<^verbatim>\<open>routes/schedule.ts\<close>)\<close>

text \<open>The numbers of the report are doubles, \<^verbatim>\<open>NaN\<close> among them.\<close>

record session =
  sessionClassId :: "ident option"
  sessionClassName :: string
  sessionSubjectName :: string
  sessionDayOfWeek :: nat
  timeRange :: string
  duration :: "real option"

record roomUsage =
  roomLabel :: string
  totalHours :: "real option"
  sessions :: "session list"
  conflicts :: "string list"

text \<open>
  \<^verbatim>\<open>(end.getTime() - start.getTime()) / (1000 * 60 * 60)\<close>, from times in minutes: the
  difference of the two times in milliseconds is exact, the quotient is rounded.
\<close>

definition hoursBetween :: "nat option \<Rightarrow> nat option \<Rightarrow> real option" where
  "hoursBetween s e =
     (case s of None \<Rightarrow> None
      | Some a \<Rightarrow>
          (case e of None \<Rightarrow> None
           | Some b \<Rightarrow> Some (roundDouble ((of_nat b * 60000 - of_nat a * 60000) / 3600000))))"

text \<open>\<^verbatim>\<open>x + y\<close> and \<^verbatim>\<open>x - y\<close> on numbers.\<close>

definition addHours :: "real option \<Rightarrow> real option \<Rightarrow> real option" where
  "addHours x y =
     (case x of None \<Rightarrow> None
      | Some a \<Rightarrow> (case y of None \<Rightarrow> None | Some b \<Rightarrow> Some (roundDouble (a + b))))"

definition subtractHours :: "real option \<Rightarrow> real option \<Rightarrow> real option" where
  "subtractHours x y =
     (case x of None \<Rightarrow> None
      | Some a \<Rightarrow> (case y of None \<Rightarrow> None | Some b \<Rightarrow> Some (roundDouble (a - b))))"

text \<open>
  The body of the loop over all schedule entries, in two steps. First what the map
  receives for an entry with the room label \<open>r\<close>. The \<^verbatim>\<open>Map\<close> keyed by the lower-cased
  label is an association list in insertion order.
\<close>

definition addSession ::
  "(string \<times> roomUsage) list \<Rightarrow> string \<Rightarrow> session \<Rightarrow> string list \<Rightarrow> (string \<times> roomUsage) list" where
  "addSession roomUtilization r sess found =
     (let roomKey = toLowerCase r;
          withRoom =
            (if map_of roomUtilization roomKey = None
             then roomUtilization @
                    [(roomKey, \<lparr>roomLabel = r, totalHours = Some 0, sessions = [], conflicts = []\<rparr>)]
             else roomUtilization)
      in map (\<lambda>(k, u).
                if k = roomKey
                then (k, u\<lparr>totalHours := addHours (totalHours u) (duration sess),
                          sessions := sessions u @ [sess],
                          conflicts := conflicts u @ found\<rparr>)
                else (k, u))
           withRoom)"

text \<open>
  The entry of \<^verbatim>\<open>sessions\<close> for a schedule entry whose class reference is \<open>c\<close> and whose
  subject reference is \<open>s\<close>.
\<close>

definition sessionOf :: "store \<Rightarrow> ident \<Rightarrow> ident \<Rightarrow> nat \<times> ident option classSchedule \<Rightarrow> session" where
  "sessionOf st c s schedule =
     (let cls = getById (classes st) c;
          subject = getById (subjects st) s
      in \<lparr>sessionClassId = scheduleClassId (snd schedule),
          sessionClassName =
            (case cls of None \<Rightarrow> ''Unknown'' | Some k \<Rightarrow> orElse (className (snd k)) ''Unknown''),
          sessionSubjectName =
            (case subject of None \<Rightarrow> ''Unknown'' | Some k \<Rightarrow> orElse (subjectName (snd k)) ''Unknown''),
          sessionDayOfWeek = dayOfWeek (snd schedule),
          timeRange = formatTimeRange (startTime (snd schedule)) (endTime (snd schedule)),
          duration = hoursBetween (clockTime (startTime (snd schedule)))
                       (clockTime (endTime (snd schedule)))\<rparr>)"

text \<open>
  Then the loop body itself. The lookups of the class and of the subject call
  \<^verbatim>\<open>id.toString()\<close> on the entry's references, which throws on \<^verbatim>\<open>null\<close>; the exception
  ends the handler.
\<close>

definition recordSession ::
  "store \<Rightarrow> (string \<times> roomUsage) list \<Rightarrow> nat \<times> ident option classSchedule \<Rightarrow>
     dbError + (string \<times> roomUsage) list" where
  "recordSession st roomUtilization schedule =
     (case room (snd schedule) of
        None \<Rightarrow> Inr roomUtilization
      | Some r \<Rightarrow>
          if r = [] then Inr roomUtilization
          else
     (case scheduleClassId (snd schedule) of
        None \<Rightarrow> Inl TypeError
      | Some c \<Rightarrow>
     (case subjectId (snd schedule) of
        None \<Rightarrow> Inl TypeError
      | Some s \<Rightarrow>
     (case checkScheduleConflicts st (snd schedule) (Some (fst schedule)) of
        Inl e \<Rightarrow> Inl e
      | Inr found \<Rightarrow> Inr (addSession roomUtilization r (sessionOf st c s schedule) found)))))"

text \<open>A loop that an exception ends.\<close>

fun foldE :: "('b \<Rightarrow> 'a \<Rightarrow> 'e + 'b) \<Rightarrow> 'b \<Rightarrow> 'a list \<Rightarrow> 'e + 'b" where
  "foldE f b [] = Inr b"
| "foldE f b (x # xs) = (case f b x of Inl e \<Rightarrow> Inl e | Inr b' \<Rightarrow> foldE f b' xs)"

text \<open>
  \<^verbatim>\<open>.sort((a, b) => b.totalHours - a.totalHours)\<close>: a stable sort; \<open>a\<close> stays before
  \<open>b\<close> unless the comparator is positive, and a \<^verbatim>\<open>NaN\<close> result counts as zero.
\<close>

definition staysBefore :: "roomUsage \<Rightarrow> roomUsage \<Rightarrow> bool" where
  "staysBefore a b =
     (case subtractHours (totalHours b) (totalHours a) of None \<Rightarrow> True | Some d \<Rightarrow> \<not> 0 < d)"

fun insertBy :: "('a \<Rightarrow> 'a \<Rightarrow> bool) \<Rightarrow> 'a \<Rightarrow> 'a list \<Rightarrow> 'a list" where
  "insertBy le x [] = [x]"
| "insertBy le x (y # ys) = (if le x y then x # y # ys else y # insertBy le x ys)"

definition sortBy :: "('a \<Rightarrow> 'a \<Rightarrow> bool) \<Rightarrow> 'a list \<Rightarrow> 'a list" where
  "sortBy le xs = foldr (insertBy le) xs []"

text \<open>The rooms of the report, or the exception that the handler answers with 500.\<close>

definition getRoomUtilization :: "store \<Rightarrow> dbError + roomUsage list" where
  "getRoomUtilization st =
     (case foldE (recordSession st) [] (allSchedules st) of
        Inl e \<Rightarrow> Inl e
      | Inr roomUtilization \<Rightarrow> Inr (sortBy staysBefore (map snd roomUtilization)))"

text \<open>What the claims say about one entry and one room label.\<close>

definition inRoom :: "string \<Rightarrow> 'a \<times> 'r classSchedule \<Rightarrow> bool" where
  "inRoom key d = (case room (snd d) of None \<Rightarrow> False | Some r \<Rightarrow> r \<noteq> [] \<and> toLowerCase r = key)"

text \<open>
  The hours of an entry, from its two times in minutes, and the sum of a list of hours
  as the loop forms it: from zero, one addition after the other.
\<close>

definition sessionHours :: "'a \<times> 'r classSchedule \<Rightarrow> real" where
  "sessionHours d =
     roundDouble ((real (minutesOf (endTime (snd d))) - real (minutesOf (startTime (snd d)))) / 60)"

definition sumHours :: "real list \<Rightarrow> real" where
  "sumHours hs = foldl (\<lambda>a h. roundDouble (a + h)) 0 hs"

definition hoursOf :: "roomUsage \<Rightarrow> real" where
  "hoursOf u = (case totalHours u of None \<Rightarrow> 0 | Some h \<Rightarrow> h)"

text \<open>The running total of a room in the map, zero while the room has no entry.\<close>

definition soFar :: "(string \<times> roomUsage) list \<Rightarrow> string \<Rightarrow> real option" where
  "soFar m k = (case map_of m k of None \<Rightarrow> Some 0 | Some u \<Rightarrow> totalHours u)"

section \<open>Enrollments (\<^verbatim>\<open>routes/enrollments.ts\<close> and the queries of \<^verbatim>\<open>database.ts\<close>)\<close>

text \<open>
  A handler returns the store it leaves behind and its HTTP response: a status code with
  the data, or a status code with the error message.
\<close>

datatype 'a response = Success nat 'a | Failure nat string

text \<open>
  \<^verbatim>\<open>getEnrollmentsByClassId\<close> and \<^verbatim>\<open>getEnrollmentsByStudentId\<close>; the documents they
  find, before \<^verbatim>\<open>populate\<close> and \<^verbatim>\<open>toJSON\<close>.
\<close>

definition getEnrollmentsByClassId :: "store \<Rightarrow> ident \<Rightarrow> dbError + (oid \<times> oid enrollment) list" where
  "getEnrollmentsByClassId st c =
     (case getObjectId (classes st) c of
        Inl e \<Rightarrow> Inl e
      | Inr i \<Rightarrow> Inr (filter (\<lambda>d. classId (snd d) = i) (enrollments st)))"


text \<open>
  \<^verbatim>\<open>updateClassStudentCount\<close>: count the documents with that class and status
  \<^verbatim>\<open>'active'\<close>, then \<^verbatim>\<open>ClassModel.findByIdAndUpdate\<close>.
\<close>

definition updateClassStudentCount :: "store \<Rightarrow> ident \<Rightarrow> dbError + store" where
  "updateClassStudentCount st c =
     (case getObjectId (classes st) c of
        Inl e \<Rightarrow> Inl e
      | Inr i \<Rightarrow>
          let activeEnrollments =
                length (filter (\<lambda>d. classId (snd d) = i \<and> status (snd d) = Active) (enrollments st))
          in (case findOneAndUpdate noIndex (classes st) i
                     (Inr (\<lambda>k. k\<lparr>currentStudents := activeEnrollments\<rparr>)) of
                Inl e \<Rightarrow> Inl e
              | Inr (cs, _) \<Rightarrow> Inr (st\<lparr>classes := cs\<rparr>)))"

text \<open>
  The same with a reference field of a document as the argument: \<^verbatim>\<open>id.toString()\<close>
  throws on \<^verbatim>\<open>null\<close>.
\<close>

definition recountClassOf :: "store \<Rightarrow> ident option \<Rightarrow> dbError + store" where
  "recountClassOf st r = (case r of None \<Rightarrow> Inl TypeError | Some c \<Rightarrow> updateClassStudentCount st c)"

record enrollmentResponse =
  responseEnrollment :: "nat \<times> ident option enrollment"
  responseStudent :: "nat \<times> string \<times> string"
  responseClass :: "nat \<times> string"
  responseSchool :: "nat \<times> string"

text \<open>\<^verbatim>\<open>mapEnrollmentToResponse\<close>: three lookups, each by a reference field.\<close>

definition mapEnrollmentToResponse ::
  "store \<Rightarrow> nat \<times> ident option enrollment \<Rightarrow> dbError + enrollmentResponse" where
  "mapEnrollmentToResponse st e =
     (case studentId (snd e) of
        None \<Rightarrow> Inl TypeError
      | Some s \<Rightarrow>
     (case classId (snd e) of
        None \<Rightarrow> Inl TypeError
      | Some c \<Rightarrow>
          let student = getById (students st) s;
              cls = getById (classes st) c
          in
     (case (case cls of
              None \<Rightarrow> Inr None
            | Some k \<Rightarrow> (case classSchool st k of
                           None \<Rightarrow> Inl TypeError
                         | Some i \<Rightarrow> Inr (getById (schools st) i))) of
        Inl err \<Rightarrow> Inl err
      | Inr school \<Rightarrow>
          Inr \<lparr>responseEnrollment = e,
               responseStudent =
                 (case student of
                    None \<Rightarrow> (0, ''Unknown'', ''Unknown Student'')
                  | Some k \<Rightarrow> (jsonId (fst k), studentName (snd k), fullName (snd k))),
               responseClass =
                 (case cls of None \<Rightarrow> (0, ''Unknown'') | Some k \<Rightarrow> (jsonId (fst k), className (snd k))),
               responseSchool =
                 (case school of None \<Rightarrow> (0, ''Unknown'') | Some k \<Rightarrow> (jsonId (fst k), schoolName (snd k)))\<rparr>)))"

text \<open>
  \<^verbatim>\<open>database.create("enrollments", item)\<close> on the store; the driver picks the new
  \<^verbatim>\<open>_id\<close>. \<^verbatim>\<open>save()\<close> validates the document against the schema of
  \<^verbatim>\<open>models/Enrollment.ts\<close>: both references are required ObjectIds, the date is a
  required date and the academic year a required string (an empty one counts as
  missing). The date is given as the day that the driver reads from the value,
  \<open>None\<close> when it is no date.
\<close>

definition createEnrollmentDoc ::
  "store \<Rightarrow> ident option \<Rightarrow> ident option \<Rightarrow> string option \<Rightarrow> string \<Rightarrow>
     dbError + (store \<times> (oid \<times> oid enrollment))" where
  "createEnrollmentDoc st s c date year =
     (case (s, c, date) of
        (Some sv, Some cv, Some day) \<Rightarrow>
          (case (castObjectId sv, castObjectId cv) of
             (Inr sRef, Inr cRef) \<Rightarrow>
               if year = [] then Inl ValidationError
               else
                 let item = \<lparr>studentId = sRef, classId = cRef, enrollmentDate = day,
                             status = Active, academicYear = year\<rparr>
                 in (case create enrollmentIndex (enrollments st) (nextId st) item of
                       Inl e \<Rightarrow> Inl e
                     | Inr docs \<Rightarrow>
                         Inr (st\<lparr>enrollments := docs, nextId := Suc (nextId st)\<rparr>, (nextId st, item)))
           | _ \<Rightarrow> Inl ValidationError)
      | _ \<Rightarrow> Inl ValidationError)"

record createEnrollmentRequest =
  requestStudentId :: nat
  requestClassId :: nat
  requestEnrollmentDate :: "string option"
  requestAcademicYear :: string

text \<open>
  The test ``is the student already enrolled'' of the three handlers that create an
  enrollment: \<^verbatim>\<open>===\<close> between the reference fields of each enrollment that
  \<^verbatim>\<open>getAll\<close> returns and the two given values.
\<close>

definition alreadyEnrolled :: "store \<Rightarrow> ident option \<Rightarrow> ident option \<Rightarrow> bool" where
  "alreadyEnrolled st s c =
     list_ex (\<lambda>e. sameValue (studentId (snd e)) s \<and> sameValue (classId (snd e)) c \<and>
                   status (snd e) = Active)
       (map (enrollmentJSON st) (getAll (enrollments st)))"

text \<open>
  \<^verbatim>\<open>POST /api/enrollments\<close>, after the request has passed \<^verbatim>\<open>createEnrollmentSchema\<close>,
  which wants both ids to be numbers.
\<close>

definition createEnrollment ::
  "store \<Rightarrow> createEnrollmentRequest \<Rightarrow> store \<times> enrollmentResponse response" where
  "createEnrollment st enrollmentData =
     (case getById (students st) (Num (requestStudentId enrollmentData)) of
        None \<Rightarrow> (st, Failure 400 ''Student not found'')
      | Some student \<Rightarrow>
     (case getById (classes st) (Num (requestClassId enrollmentData)) of
        None \<Rightarrow> (st, Failure 400 ''Class not found'')
      | Some cls \<Rightarrow>
          if alreadyEnrolled st (Some (Num (requestStudentId enrollmentData)))
               (Some (Num (requestClassId enrollmentData)))
          then (st, Failure 400 ''Student is already enrolled in this class'')
          else
     (case getEnrollmentsByClassId st (Num (requestClassId enrollmentData)) of
        Inl _ \<Rightarrow> (st, Failure 500 ''Failed to create enrollment'')
      | Inr found \<Rightarrow>
          if length (filter (\<lambda>e. status (snd e) = Active) found) \<ge> maxStudents (snd cls)
          then (st, Failure 400 ''Class is full. Maximum students reached.'')
          else
     (case createEnrollmentDoc st (Some (Num (requestStudentId enrollmentData)))
             (Some (Num (requestClassId enrollmentData)))
             (requestEnrollmentDate enrollmentData) (requestAcademicYear enrollmentData) of
        Inl _ \<Rightarrow> (st, Failure 500 ''Failed to create enrollment'')
      | Inr (st1, newEnrollment) \<Rightarrow>
     (case updateClassStudentCount st1 (Num (requestClassId enrollmentData)) of
        Inl _ \<Rightarrow> (st1, Failure 500 ''Failed to create enrollment'')
      | Inr st2 \<Rightarrow>
     (case mapEnrollmentToResponse st2 (savedJSON newEnrollment) of
        Inl _ \<Rightarrow> (st2, Failure 500 ''Failed to create enrollment'')
      | Inr r \<Rightarrow> (st2, Success 201 r)))))))"

text \<open>\<^verbatim>\<open>PUT /api/enrollments/:id\<close> with a status that passed \<^verbatim>\<open>updateEnrollmentSchema\<close>.\<close>

definition updateEnrollment ::
  "store \<Rightarrow> nat \<Rightarrow> enrollmentStatus \<Rightarrow> store \<times> enrollmentResponse response" where
  "updateEnrollment st i newStatus =
     (case getById (enrollments st) (Num i) of
        None \<Rightarrow> (st, Failure 404 ''Enrollment not found'')
      | Some found \<Rightarrow>
     (let existingEnrollment = enrollmentJSON st found in
      case update enrollmentIndex (enrollments st) (Num i) (Inr (\<lambda>e. e\<lparr>status := newStatus\<rparr>)) of
        Inl _ \<Rightarrow> (st, Failure 500 ''Failed to update enrollment'')
      | Inr (docs, None) \<Rightarrow> (st\<lparr>enrollments := docs\<rparr>, Failure 500 ''Failed to update enrollment'')
      | Inr (docs, Some updated) \<Rightarrow>
     (let st1 = st\<lparr>enrollments := docs\<rparr>;
          updatedEnrollment = enrollmentJSON st1 updated
      in
      case recountClassOf st1 (classId (snd existingEnrollment)) of
        Inl _ \<Rightarrow> (st1, Failure 500 ''Failed to update enrollment'')
      | Inr st2 \<Rightarrow>
     (case mapEnrollmentToResponse st2 updatedEnrollment of
        Inl _ \<Rightarrow> (st2, Failure 500 ''Failed to update enrollment'')
      | Inr r \<Rightarrow> (st2, Success 200 r)))))"

text \<open>\<^verbatim>\<open>DELETE /api/enrollments/:id\<close>.\<close>

definition deleteEnrollment :: "store \<Rightarrow> nat \<Rightarrow> store \<times> string response" where
  "deleteEnrollment st i =
     (case getById (enrollments st) (Num i) of
        None \<Rightarrow> (st, Failure 404 ''Enrollment not found'')
      | Some found \<Rightarrow>
     (let existingEnrollment = enrollmentJSON st found in
      case delete (enrollments st) (Num i) of
        (docs, False) \<Rightarrow> (st\<lparr>enrollments := docs\<rparr>, Failure 500 ''Failed to delete enrollment'')
      | (docs, True) \<Rightarrow>
     (case recountClassOf (st\<lparr>enrollments := docs\<rparr>) (classId (snd existingEnrollment)) of
        Inl _ \<Rightarrow> (st\<lparr>enrollments := docs\<rparr>, Failure 500 ''Failed to delete enrollment'')
      | Inr st2 \<Rightarrow> (st2, Success 200 ''Enrollment deleted successfully''))))"

text \<open>
  \<^verbatim>\<open>POST /api/enrollments/bulk\<close>. The body is not validated by a schema, so the student
  ids and the class id are the numbers or strings that the request holds. One round of
  the loop: the \<^verbatim>\<open>try\<close> block around it turns every exception into an entry of
  \<open>errors\<close>.
\<close>

record bulkState =
  bulkStore :: store
  createdEnrollments :: "enrollmentResponse list"
  errors :: "string list"

definition enrollOne ::
  "(oid \<times> classDoc) \<Rightarrow> scalar \<Rightarrow> string option \<Rightarrow> string \<Rightarrow> bulkState \<Rightarrow> scalar \<Rightarrow> bulkState" where
  "enrollOne cls c date year b s =
     (let st = bulkStore b;
          failed = ''Failed to enroll student with ID '' @ idToString (Val s)
      in
      case getById (students st) (Val s) of
        None \<Rightarrow> b\<lparr>errors := errors b @ [''Student with ID '' @ idToString (Val s) @ '' not found'']\<rparr>
      | Some student \<Rightarrow>
          if alreadyEnrolled st (Some (Val s)) (Some (Val c))
          then b\<lparr>errors := errors b @
                   [''Student '' @ studentName (snd student) @ '' is already enrolled in this class'']\<rparr>
          else
     (case getEnrollmentsByClassId st (Val c) of
        Inl _ \<Rightarrow> b\<lparr>errors := errors b @ [failed]\<rparr>
      | Inr found \<Rightarrow>
          if length (filter (\<lambda>e. status (snd e) = Active) found) \<ge> maxStudents (snd cls)
          then b\<lparr>errors := errors b @
                   [''Class is full. Cannot enroll student '' @ studentName (snd student)]\<rparr>
          else
     (case createEnrollmentDoc st (Some (Val s)) (Some (Val c)) date year of
        Inl _ \<Rightarrow> b\<lparr>errors := errors b @ [failed]\<rparr>
      | Inr (st1, newEnrollment) \<Rightarrow>
     (case mapEnrollmentToResponse st1 (savedJSON newEnrollment) of
        Inl _ \<Rightarrow> b\<lparr>bulkStore := st1, errors := errors b @ [failed]\<rparr>
      | Inr r \<Rightarrow> b\<lparr>bulkStore := st1, createdEnrollments := createdEnrollments b @ [r]\<rparr>))))"

definition bulkCreateEnrollments ::
  "store \<Rightarrow> scalar list \<Rightarrow> scalar \<Rightarrow> string option \<Rightarrow> string \<Rightarrow>
     store \<times> (enrollmentResponse list \<times> string list) response" where
  "bulkCreateEnrollments st studentIds c date year =
     (if studentIds = [] then (st, Failure 400 ''studentIds must be a non-empty array'')
      else
      case getById (classes st) (Val c) of
        None \<Rightarrow> (st, Failure 400 ''Class not found'')
      | Some cls \<Rightarrow>
          let b = foldl (enrollOne cls c date year)
                    \<lparr>bulkStore = st, createdEnrollments = [], errors = []\<rparr> studentIds
          in (case updateClassStudentCount (bulkStore b) (Val c) of
                Inl _ \<Rightarrow> (bulkStore b, Failure 500 ''Failed to bulk create enrollments'')
              | Inr st2 \<Rightarrow> (st2, Success 200 (createdEnrollments b, errors b))))"

text \<open>
  \<^verbatim>\<open>transferStudent\<close> (\<^verbatim>\<open>PUT /api/enrollments/:id/transfer\<close>); \<open>today\<close> is
  \<^verbatim>\<open>new Date().toISOString().split('T')[0]\<close>. The result of the status update is not
  looked at.
\<close>

definition transferStudent ::
  "store \<Rightarrow> string \<Rightarrow> nat \<Rightarrow> scalar \<Rightarrow> store \<times> enrollmentResponse response" where
  "transferStudent st today i newClass =
     (let newClassId = Val newClass in
      if falsy newClassId then (st, Failure 400 ''Invalid enrollment ID or new class ID'')
      else
      case getById (enrollments st) (Num i) of
        None \<Rightarrow> (st, Failure 404 ''Enrollment not found'')
      | Some found \<Rightarrow>
     (let existingEnrollment = enrollmentJSON st found in
      case getById (classes st) newClassId of
        None \<Rightarrow> (st, Failure 400 ''New class not found'')
      | Some target \<Rightarrow>
          if alreadyEnrolled st (studentId (snd existingEnrollment)) (Some newClassId)
          then (st, Failure 400 ''Student is already enrolled in the new class'')
          else
     (case getEnrollmentsByClassId st newClassId of
        Inl _ \<Rightarrow> (st, Failure 500 ''Failed to transfer student'')
      | Inr active \<Rightarrow>
          if length (filter (\<lambda>e. status (snd e) = Active) active) \<ge> maxStudents (snd target)
          then (st, Failure 400 ''New class is full. Maximum students reached.'')
          else
     (let oldClassId = classId (snd existingEnrollment) in
      case update enrollmentIndex (enrollments st) (Num i) (Inr (\<lambda>e. e\<lparr>status := Transferred\<rparr>)) of
        Inl _ \<Rightarrow> (st, Failure 500 ''Failed to transfer student'')
      | Inr (docs, _) \<Rightarrow>
     (let st1 = st\<lparr>enrollments := docs\<rparr> in
      case createEnrollmentDoc st1 (studentId (snd existingEnrollment)) (Some newClassId)
             (Some today) (academicYear (snd existingEnrollment)) of
        Inl _ \<Rightarrow> (st1, Failure 500 ''Failed to transfer student'')
      | Inr (st2, newEnrollment) \<Rightarrow>
     (case recountClassOf st2 oldClassId of
        Inl _ \<Rightarrow> (st2, Failure 500 ''Failed to transfer student'')
      | Inr st3 \<Rightarrow>
     (case updateClassStudentCount st3 newClassId of
        Inl _ \<Rightarrow> (st3, Failure 500 ''Failed to transfer student'')
      | Inr st4 \<Rightarrow>
     (case mapEnrollmentToResponse st4 (savedJSON newEnrollment) of
        Inl _ \<Rightarrow> (st4, Failure 500 ''Failed to transfer student'')
      | Inr r \<Rightarrow> (st4, Success 200 r)))))))))"



section \<open>States reachable through the enrollment operations\<close>




definition activeCount :: "store \<Rightarrow> nat \<Rightarrow> nat \<Rightarrow> nat" where
  "activeCount st s c =
     length (filter (\<lambda>d. studentId (snd d) = s \<and> classId (snd d) = c \<and> status (snd d) = Active)
               (enrollments st))"

definition statusCode :: "'a response \<Rightarrow> nat" where
  "statusCode r = (case r of Success n _ \<Rightarrow> n | Failure n _ \<Rightarrow> n)"

text \<open>What the theorems below read off a store.\<close>

definition enrollmentRows :: "store \<Rightarrow> (oid \<times> nat \<times> nat \<times> enrollmentStatus) list" where
  "enrollmentRows st = map (\<lambda>d. (fst d, studentId (snd d), classId (snd d), status (snd d))) (enrollments st)"

definition classCounts :: "store \<Rightarrow> (oid \<times> nat \<times> nat) list" where
  "classCounts st = map (\<lambda>d. (fst d, maxStudents (snd d), currentStudents (snd d))) (classes st)"

definition activeInClass :: "store \<Rightarrow> nat \<Rightarrow> nat" where
  "activeInClass st c =
     length (filter (\<lambda>d. classId (snd d) = c \<and> status (snd d) = Active) (enrollments st))"

section \<open>Classes and their schedules (\<^verbatim>\<open>routes/classes.ts\<close>)\<close>

definition digitIn :: "char \<Rightarrow> nat \<Rightarrow> nat \<Rightarrow> bool" where
  "digitIn c lo hi = (case digitVal c of None \<Rightarrow> False | Some d \<Rightarrow> lo \<le> d \<and> d \<le> hi)"

text \<open>The regular expression \<^verbatim>\<open>/^([0-1]?[0-9]|2[0-3]):[0-5][0-9]$/\<close>.\<close>

fun matchesTimeFormat :: "string \<Rightarrow> bool" where
  "matchesTimeFormat [h, c, m1, m2] =
     (digitIn h 0 9 \<and> c = CHR '':'' \<and> digitIn m1 0 5 \<and> digitIn m2 0 9)"
| "matchesTimeFormat [h1, h2, c, m1, m2] =
     (((digitIn h1 0 1 \<and> digitIn h2 0 9) \<or> (digitIn h1 2 2 \<and> digitIn h2 0 3)) \<and>
      c = CHR '':'' \<and> digitIn m1 0 5 \<and> digitIn m2 0 9)"
| "matchesTimeFormat _ = False"

definition validateScheduleTime :: "string \<Rightarrow> string \<Rightarrow> bool" where
  "validateScheduleTime s e = dateLess (clockTime s) (clockTime e)"

record scheduleItem =
  itemSubjectId :: nat
  itemDayOfWeek :: nat
  itemStartTime :: string
  itemEndTime :: string
  itemRoom :: "string option"

text \<open>\<^verbatim>\<open>scheduleSchema\<close>, on a value that already has the right field types.\<close>

definition scheduleSchema :: "scheduleItem \<Rightarrow> bool" where
  "scheduleSchema item =
     (itemDayOfWeek item \<le> 6 \<and> matchesTimeFormat (itemStartTime item) \<and>
      matchesTimeFormat (itemEndTime item) \<and>
      (case itemRoom item of None \<Rightarrow> True | Some r \<Rightarrow> length r \<le> 100))"

record createClassRequest =
  requestName :: string
  requestSchoolId :: nat
  requestTeacherId :: "nat option"
  requestSubjectIds :: "nat list"
  requestPrimarySubjectId :: "nat option"
  requestMaxStudents :: nat
  requestClassYear :: string
  requestSchedule :: "scheduleItem list option"

definition createClassSchema :: "createClassRequest \<Rightarrow> bool" where
  "createClassSchema r =
     (1 \<le> length (requestName r) \<and> length (requestName r) \<le> 100 \<and>
      requestSubjectIds r \<noteq> [] \<and>
      1 \<le> requestMaxStudents r \<and> requestMaxStudents r \<le> 100 \<and>
      (case requestSchedule r of None \<Rightarrow> True | Some items \<Rightarrow> list_all scheduleSchema items))"

text \<open>\<^verbatim>\<open>updateClassSchema = createClassSchema.partial()\<close>: every field may be absent.\<close>

record updateClassRequest =
  updateName :: "string option"
  updateSchoolId :: "nat option"
  updateTeacherId :: "nat option"
  updateSubjectIds :: "nat list option"
  updatePrimarySubjectId :: "nat option"
  updateMaxStudents :: "nat option"
  updateClassYear :: "string option"
  updateSchedule :: "scheduleItem list option"

definition updateClassSchema :: "updateClassRequest \<Rightarrow> bool" where
  "updateClassSchema r =
     ((case updateName r of None \<Rightarrow> True | Some n \<Rightarrow> 1 \<le> length n \<and> length n \<le> 100) \<and>
      (case updateSubjectIds r of None \<Rightarrow> True | Some ids \<Rightarrow> ids \<noteq> []) \<and>
      (case updateMaxStudents r of None \<Rightarrow> True | Some m \<Rightarrow> 1 \<le> m \<and> m \<le> 100) \<and>
      (case updateSchedule r of None \<Rightarrow> True | Some items \<Rightarrow> list_all scheduleSchema items))"

definition getSchedulesByClassId :: "store \<Rightarrow> ident \<Rightarrow> dbError + (oid \<times> oid classSchedule) list" where
  "getSchedulesByClassId st c =
     (case getObjectId (classes st) c of
        Inl e \<Rightarrow> Inl e
      | Inr i \<Rightarrow> Inr (filter (\<lambda>d. scheduleClassId (snd d) = i) (schedules st)))"

text \<open>
  The response of the class handlers: the class and its schedule entries. The joined
  school, teacher, subjects and students are left out; what is kept of
  \<^verbatim>\<open>mapClassToResponse\<close> is whether it throws. Its first lookup is
  \<^verbatim>\<open>getById("schools", cls.schoolId)\<close>, on the reference field \<open>school\<close> of the class;
  the other lookups are guarded or have an id that is a number.
\<close>

record classResponse =
  classView :: "nat \<times> classDoc"
  classSchedules :: "(nat \<times> ident option classSchedule) list"

definition mapClassToResponse ::
  "store \<Rightarrow> ident option \<Rightarrow> oid \<times> classDoc \<Rightarrow> dbError + classResponse" where
  "mapClassToResponse st school cls =
     (case school of
        None \<Rightarrow> Inl TypeError
      | Some _ \<Rightarrow>
     (case getSchedulesByClassId st (Num (jsonId (fst cls))) of
        Inl e \<Rightarrow> Inl e
      | Inr found \<Rightarrow>
          Inr \<lparr>classView = (jsonId (fst cls), snd cls), classSchedules = map (scheduleJSON st) found\<rparr>))"

text \<open>
  The teacher checks shared by both handlers: the error message, if any.
  \<^verbatim>\<open>teacher.schoolIds.includes(schoolId)\<close> compares the populated schools of the teacher
  with the given value as \<^verbatim>\<open>===\<close> does.
\<close>

definition teacherError :: "store \<Rightarrow> nat option \<Rightarrow> ident option \<Rightarrow> string option" where
  "teacherError st t school =
     (case t of
        None \<Rightarrow> None
      | Some n \<Rightarrow>
          if n = 0 then None
          else (case getById (teachers st) (Num n) of
                  None \<Rightarrow> Some ''Teacher not found''
                | Some teacher \<Rightarrow>
                    if list_ex (\<lambda>v. sameValue (Some v) school)
                         (populateAll (schools st) (schoolIds (snd teacher)))
                    then None
                    else Some ''Teacher is not assigned to this school''))"

text \<open>The loop ``Validate subjects exist'': the first id without a subject.\<close>

fun firstMissingSubject :: "store \<Rightarrow> nat list \<Rightarrow> nat option" where
  "firstMissingSubject st [] = None"
| "firstMissingSubject st (s # ss) =
     (case getById (subjects st) (Num s) of
        None \<Rightarrow> Some s
      | Some _ \<Rightarrow> firstMissingSubject st ss)"

text \<open>The loop ``Validate schedule times'' of \<^verbatim>\<open>createClass\<close>: the first error message.\<close>

fun scheduleError :: "nat list \<Rightarrow> scheduleItem list \<Rightarrow> string option" where
  "scheduleError ids [] = None"
| "scheduleError ids (scheduleItem # rest) =
     (if \<not> validateScheduleTime (itemStartTime scheduleItem) (itemEndTime scheduleItem)
      then Some ''End time must be after start time''
      else if itemSubjectId scheduleItem \<notin> set ids
      then Some ''Schedule subject must be included in class subjects''
      else scheduleError ids rest)"

text \<open>
  The loop that stores the schedule entries, with the number \<open>c\<close> as \<^verbatim>\<open>classId\<close>; it
  stops at the first exception, leaving what it has stored. The flag says whether it
  came to its end. The schema of \<^verbatim>\<open>models/ClassSchedule.ts\<close> wants both references to be
  ObjectIds, trims the room label and refuses one of more than 50 characters.
\<close>

fun createScheduleEntries :: "store \<Rightarrow> nat \<Rightarrow> scheduleItem list \<Rightarrow> store \<times> bool" where
  "createScheduleEntries st c [] = (st, True)"
| "createScheduleEntries st c (scheduleItem # rest) =
     (let label = map_option trim (itemRoom scheduleItem) in
      if (case label of None \<Rightarrow> False | Some r \<Rightarrow> length r > 50) then (st, False)
      else
      case (castObjectId (Num c), castObjectId (Num (itemSubjectId scheduleItem))) of
        (Inr classRef, Inr subjectRef) \<Rightarrow>
          (case create scheduleIndex (schedules st) (nextId st)
                  \<lparr>scheduleClassId = classRef, subjectId = subjectRef,
                   dayOfWeek = itemDayOfWeek scheduleItem, startTime = itemStartTime scheduleItem,
                   endTime = itemEndTime scheduleItem, room = label\<rparr> of
             Inl _ \<Rightarrow> (st, False)
           | Inr entries \<Rightarrow>
               createScheduleEntries (st\<lparr>schedules := entries, nextId := Suc (nextId st)\<rparr>) c rest)
      | _ \<Rightarrow> (st, False))"

text \<open>An optional reference of a request, as the driver stores it.\<close>

definition castOptional :: "nat option \<Rightarrow> dbError + oid option" where
  "castOptional v =
     (case v of
        None \<Rightarrow> Inr None
      | Some n \<Rightarrow> (case castObjectId (Num n) of Inl e \<Rightarrow> Inl e | Inr i \<Rightarrow> Inr (Some i)))"

text \<open>
  \<^verbatim>\<open>POST /api/classes\<close>. The schema of \<^verbatim>\<open>models/Class.ts\<close> wants the references to be
  ObjectIds, trims the name, and requires the name and the academic year, so that an
  empty one makes \<^verbatim>\<open>save\<close> throw.
\<close>

definition createClass :: "store \<Rightarrow> createClassRequest \<Rightarrow> store \<times> classResponse response" where
  "createClass st classData =
     (if \<not> createClassSchema classData then (st, Failure 400 ''Invalid class data'')
      else
      case getById (schools st) (Num (requestSchoolId classData)) of
        None \<Rightarrow> (st, Failure 400 ''School not found'')
      | Some school \<Rightarrow>
     (case teacherError st (requestTeacherId classData) (Some (Num (requestSchoolId classData))) of
        Some message \<Rightarrow> (st, Failure 400 message)
      | None \<Rightarrow>
     (case firstMissingSubject st (requestSubjectIds classData) of
        Some s \<Rightarrow> (st, Failure 400 (''Subject with ID '' @ decimal s @ '' not found''))
      | None \<Rightarrow>
          if (case requestPrimarySubjectId classData of
                None \<Rightarrow> False
              | Some p \<Rightarrow> p \<noteq> 0 \<and> p \<notin> set (requestSubjectIds classData))
          then (st, Failure 400 ''Primary subject must be included in the subject list'')
          else
     (case (case requestSchedule classData of
              None \<Rightarrow> None
            | Some items \<Rightarrow> scheduleError (requestSubjectIds classData) items) of
        Some message \<Rightarrow> (st, Failure 400 message)
      | None \<Rightarrow>
          if list_ex (\<lambda>cls. sameValue (classSchool st cls) (Some (Num (requestSchoolId classData))) \<and>
                            toLowerCase (className (snd cls)) = toLowerCase (requestName classData))
               (getAll (classes st))
          then (st, Failure 400 ''Class with this name already exists in the school'')
          else
     (case (castObjectId (Num (requestSchoolId classData)),
            castOptional (requestTeacherId classData),
            castObjectIds (map Num (requestSubjectIds classData)),
            castOptional (requestPrimarySubjectId classData)) of
        (Inr schoolRef, Inr teacherRef, Inr subjectRefs, Inr primaryRef) \<Rightarrow>
          (let newClass =
                 (nextId st,
                  \<lparr>className = trim (requestName classData), schoolId = schoolRef,
                   teacherId = teacherRef, subjectIds = subjectRefs, primarySubjectId = primaryRef,
                   maxStudents = requestMaxStudents classData, currentStudents = 0,
                   classYear = requestClassYear classData, embeddedSchedule = []\<rparr>)
           in
           if className (snd newClass) = [] \<or> classYear (snd newClass) = []
           then (st, Failure 500 ''Failed to create class'')
           else
           case create noIndex (classes st) (fst newClass) (snd newClass) of
             Inl _ \<Rightarrow> (st, Failure 500 ''Failed to create class'')
           | Inr cs \<Rightarrow>
          (let st1 = st\<lparr>classes := cs, nextId := Suc (nextId st)\<rparr> in
           case (case requestSchedule classData of
                   None \<Rightarrow> (st1, True)
                 | Some items \<Rightarrow> createScheduleEntries st1 (jsonId (fst newClass)) items) of
             (st2, False) \<Rightarrow> (st2, Failure 500 ''Failed to create class'')
           | (st2, True) \<Rightarrow>
               (case mapClassToResponse st2 (Some (Oid schoolRef)) newClass of
                  Inl _ \<Rightarrow> (st2, Failure 500 ''Failed to create class'')
                | Inr r \<Rightarrow> (st2, Success 201 r))))
      | _ \<Rightarrow> (st, Failure 500 ''Failed to create class''))))))"

text \<open>
  \<^verbatim>\<open>{ $set: updateData }\<close> on a class, as the driver casts it to the schema of
  \<^verbatim>\<open>models/Class.ts\<close>: every reference of the request, also the \<^verbatim>\<open>subjectId\<close> of each
  item of \<^verbatim>\<open>schedule\<close>, has to be an ObjectId; the name is trimmed. The fields present
  in the request are then replaced.
\<close>

record classUpdates =
  newName :: "string option"
  newSchoolId :: "oid option"
  newTeacherId :: "oid option"
  newSubjectIds :: "oid list option"
  newPrimarySubjectId :: "oid option"
  newMaxStudents :: "nat option"
  newClassYear :: "string option"
  newSchedule :: "embeddedItem list option"

fun castScheduleItems :: "scheduleItem list \<Rightarrow> dbError + embeddedItem list" where
  "castScheduleItems [] = Inr []"
| "castScheduleItems (item # rest) =
     (case castObjectId (Num (itemSubjectId item)) of
        Inl e \<Rightarrow> Inl e
      | Inr subjectRef \<Rightarrow>
          (case castScheduleItems rest of
             Inl e \<Rightarrow> Inl e
           | Inr items \<Rightarrow>
               Inr (\<lparr>embeddedSubjectId = subjectRef, embeddedDayOfWeek = itemDayOfWeek item,
                     embeddedStartTime = itemStartTime item, embeddedEndTime = itemEndTime item,
                     embeddedRoom = itemRoom item\<rparr> # items)))"

definition castClassUpdates :: "updateClassRequest \<Rightarrow> dbError + classUpdates" where
  "castClassUpdates u =
     (case (castOptional (updateSchoolId u), castOptional (updateTeacherId u),
            (case updateSubjectIds u of
               None \<Rightarrow> Inr None
             | Some ids \<Rightarrow> (case castObjectIds (map Num ids) of Inl e \<Rightarrow> Inl e | Inr is \<Rightarrow> Inr (Some is))),
            castOptional (updatePrimarySubjectId u),
            (case updateSchedule u of
               None \<Rightarrow> Inr None
             | Some items \<Rightarrow> (case castScheduleItems items of Inl e \<Rightarrow> Inl e | Inr is \<Rightarrow> Inr (Some is)))) of
        (Inr s, Inr t, Inr ids, Inr p, Inr items) \<Rightarrow>
          Inr \<lparr>newName = map_option trim (updateName u), newSchoolId = s, newTeacherId = t,
               newSubjectIds = ids, newPrimarySubjectId = p, newMaxStudents = updateMaxStudents u,
               newClassYear = updateClassYear u, newSchedule = items\<rparr>
      | _ \<Rightarrow> Inl CastError)"

definition applyClassUpdates :: "classUpdates \<Rightarrow> classDoc \<Rightarrow> classDoc" where
  "applyClassUpdates u k =
     k\<lparr>className := (case newName u of None \<Rightarrow> className k | Some n \<Rightarrow> n),
       schoolId := (case newSchoolId u of None \<Rightarrow> schoolId k | Some s \<Rightarrow> s),
       teacherId := (case newTeacherId u of None \<Rightarrow> teacherId k | Some t \<Rightarrow> Some t),
       subjectIds := (case newSubjectIds u of None \<Rightarrow> subjectIds k | Some ids \<Rightarrow> ids),
       primarySubjectId :=
         (case newPrimarySubjectId u of None \<Rightarrow> primarySubjectId k | Some p \<Rightarrow> Some p),
       maxStudents := (case newMaxStudents u of None \<Rightarrow> maxStudents k | Some m \<Rightarrow> m),
       classYear := (case newClassYear u of None \<Rightarrow> classYear k | Some y \<Rightarrow> y),
       embeddedSchedule := (case newSchedule u of None \<Rightarrow> embeddedSchedule k | Some items \<Rightarrow> items)\<rparr>"

definition classSet :: "updateClassRequest \<Rightarrow> dbError + (classDoc \<Rightarrow> classDoc)" where
  "classSet u = (case castClassUpdates u of Inl e \<Rightarrow> Inl e | Inr v \<Rightarrow> Inr (applyClassUpdates v))"

text \<open>\<^verbatim>\<open>a || b\<close> where \<open>a\<close> is an optional number of the request and \<open>b\<close> a reference field.\<close>

definition orField :: "nat option \<Rightarrow> ident option \<Rightarrow> ident option" where
  "orField a b = (if truthyNumber a then map_option Num a else b)"

text \<open>
  The loop ``Remove existing schedule'' of \<^verbatim>\<open>updateClass\<close>: each entry is deleted by its
  \<^verbatim>\<open>id\<close>, a number.
\<close>

fun deleteSchedules :: "store \<Rightarrow> (oid \<times> oid classSchedule) list \<Rightarrow> store" where
  "deleteSchedules st [] = st"
| "deleteSchedules st (schedule # rest) =
     deleteSchedules (st\<lparr>schedules := fst (delete (schedules st) (Num (jsonId (fst schedule))))\<rparr>) rest"

text \<open>\<^verbatim>\<open>PUT /api/classes/:id\<close>.\<close>

definition updateClass :: "store \<Rightarrow> nat \<Rightarrow> updateClassRequest \<Rightarrow> store \<times> classResponse response" where
  "updateClass st i updateData =
     (if \<not> updateClassSchema updateData then (st, Failure 400 ''Invalid class data'')
      else
      case getById (classes st) (Num i) of
        None \<Rightarrow> (st, Failure 404 ''Class not found'')
      | Some existingClass \<Rightarrow>
          if truthyNumber (updateSchoolId updateData) \<and>
             getById (schools st) (Num (case updateSchoolId updateData of None \<Rightarrow> 0 | Some s \<Rightarrow> s)) = None
          then (st, Failure 400 ''School not found'')
          else
     (let school = orField (updateSchoolId updateData) (classSchool st existingClass) in
      case teacherError st (updateTeacherId updateData) school of
        Some message \<Rightarrow> (st, Failure 400 message)
      | None \<Rightarrow>
     (case (case updateSubjectIds updateData of
              None \<Rightarrow> None
            | Some ids \<Rightarrow>
                (case firstMissingSubject st ids of
                   Some s \<Rightarrow> Some (''Subject with ID '' @ decimal s @ '' not found'')
                 | None \<Rightarrow>
                     (case orField (updatePrimarySubjectId updateData)
                             (classPrimarySubject st existingClass) of
                        None \<Rightarrow> None
                      | Some p \<Rightarrow>
                          if \<not> falsy p \<and> \<not> list_ex (\<lambda>n. strictEquals (Num n) p) ids
                          then Some ''Primary subject must be included in the subject list''
                          else None))) of
        Some message \<Rightarrow> (st, Failure 400 message)
      | None \<Rightarrow>
          if (case updateName updateData of
                None \<Rightarrow> False
              | Some n \<Rightarrow>
                  n \<noteq> [] \<and> toLowerCase n \<noteq> toLowerCase (className (snd existingClass)) \<and>
                  list_ex (\<lambda>cls. jsonId (fst cls) \<noteq> i \<and> sameValue (classSchool st cls) school \<and>
                                 toLowerCase (className (snd cls)) = toLowerCase n)
                    (getAll (classes st)))
          then (st, Failure 400 ''Class with this name already exists in the school'')
          else
     (case update noIndex (classes st) (Num i) (classSet updateData) of
        Inl _ \<Rightarrow> (st, Failure 500 ''Failed to update class'')
      | Inr (cs, None) \<Rightarrow> (st\<lparr>classes := cs\<rparr>, Failure 500 ''Failed to update class'')
      | Inr (cs, Some updatedClass) \<Rightarrow>
     (let st1 = st\<lparr>classes := cs\<rparr> in
      case (case updateSchedule updateData of
              None \<Rightarrow> (st1, True)
            | Some items \<Rightarrow>
                (case getSchedulesByClassId st1 (Num i) of
                   Inl _ \<Rightarrow> (st1, False)
                 | Inr existingSchedules \<Rightarrow>
                     createScheduleEntries (deleteSchedules st1 existingSchedules) i items)) of
        (st2, False) \<Rightarrow> (st2, Failure 500 ''Failed to update class'')
      | (st2, True) \<Rightarrow>
          (case mapClassToResponse st2 (classSchool st2 updatedClass) updatedClass of
             Inl _ \<Rightarrow> (st2, Failure 500 ''Failed to update class'')
           | Inr r \<Rightarrow> (st2, Success 200 r)))))))"

section \<open>Example data\<close>

text \<open>One stored entry, Monday 09:00-10:00 in Hall1, and a candidate that starts when it ends.\<close>

definition hallStore :: store where
  "hallStore =
     \<lparr>schools = [], teachers = [(7, \<lparr>teacherName = ''T'', schoolIds = []\<rparr>)],
      subjects = [(5, \<lparr>subjectName = ''Fiqh''\<rparr>)],
      classes = [(1, \<lparr>className = ''A'', schoolId = 1, teacherId = Some 7, subjectIds = [5],
                     primarySubjectId = None, maxStudents = 5, currentStudents = 0, classYear = ''y'',
                     embeddedSchedule = []\<rparr>)],
      students = [], enrollments = [],
      schedules = [(20, \<lparr>scheduleClassId = 1, subjectId = 5, dayOfWeek = 1, startTime = ''09:00'',
                         endTime = ''10:00'', room = Some ''Hall1''\<rparr>)],
      nextId = 100\<rparr>"

definition hallCandidate :: "ident option classSchedule" where
  "hallCandidate =
     \<lparr>scheduleClassId = Some (Num 1), subjectId = Some (Num 5), dayOfWeek = 1, startTime = ''10:00'',
      endTime = ''11:00'', room = Some ''hall1''\<rparr>"

text \<open>A candidate for the same class and room that starts half an hour before the entry ends.\<close>

definition lateCandidate :: "ident option classSchedule" where
  "lateCandidate =
     \<lparr>scheduleClassId = Some (Num 1), subjectId = Some (Num 5), dayOfWeek = 1, startTime = ''09:30'',
      endTime = ''11:00'', room = Some ''hall1''\<rparr>"

text \<open>
  A candidate inside the stored entry, 9:30 to 9:45, once as the format check admits it
  and once with two digits for the hour.
\<close>

definition shortCandidate :: "ident option classSchedule" where
  "shortCandidate =
     \<lparr>scheduleClassId = Some (Num 1), subjectId = Some (Num 5), dayOfWeek = 1, startTime = ''9:30'',
      endTime = ''9:45'', room = Some ''Hall1''\<rparr>"

definition paddedCandidate :: "ident option classSchedule" where
  "paddedCandidate =
     \<lparr>scheduleClassId = Some (Num 1), subjectId = Some (Num 5), dayOfWeek = 1, startTime = ''09:30'',
      endTime = ''09:45'', room = Some ''Hall1''\<rparr>"


text \<open>Five entries: two rooms that differ only in case, a third room, no room, an empty room.\<close>

definition roomStore :: store where
  "roomStore =
     \<lparr>schools = [], teachers = [], subjects = [(5, \<lparr>subjectName = ''Fiqh''\<rparr>)],
      classes = [(1, \<lparr>className = ''A'', schoolId = 1, teacherId = None, subjectIds = [5],
                     primarySubjectId = None, maxStudents = 5, currentStudents = 0, classYear = ''y'',
                     embeddedSchedule = []\<rparr>)],
      students = [], enrollments = [],
      schedules =
        [(20, \<lparr>scheduleClassId = 1, subjectId = 5, dayOfWeek = 1, startTime = ''09:00'',
               endTime = ''10:30'', room = Some ''Hall1''\<rparr>),
         (21, \<lparr>scheduleClassId = 1, subjectId = 5, dayOfWeek = 2, startTime = ''11:00'',
               endTime = ''15:00'', room = Some ''Lab''\<rparr>),
         (22, \<lparr>scheduleClassId = 1, subjectId = 5, dayOfWeek = 3, startTime = ''09:00'',
               endTime = ''10:30'', room = Some ''HALL1''\<rparr>),
         (23, \<lparr>scheduleClassId = 1, subjectId = 5, dayOfWeek = 4, startTime = ''09:00'',
               endTime = ''10:30'', room = None\<rparr>),
         (24, \<lparr>scheduleClassId = 1, subjectId = 5, dayOfWeek = 5, startTime = ''09:00'',
               endTime = ''10:30'', room = Some []\<rparr>)],
      nextId = 100\<rparr>"

definition mkClass :: "string \<Rightarrow> nat option \<Rightarrow> nat \<Rightarrow> nat \<Rightarrow> classDoc" where
  "mkClass n t m k =
     \<lparr>className = n, schoolId = 9, teacherId = t, subjectIds = [5], primarySubjectId = None,
      maxStudents = m, currentStudents = k, classYear = ''2024-2025'', embeddedSchedule = []\<rparr>"

definition mkEnrollment :: "nat \<Rightarrow> nat \<Rightarrow> enrollmentStatus \<Rightarrow> oid enrollment" where
  "mkEnrollment s c a =
     \<lparr>studentId = s, classId = c, enrollmentDate = ''2024-09-01'', status = a,
      academicYear = ''2024-2025''\<rparr>"

definition threeStudents :: "student collection" where
  "threeStudents =
     [(5, \<lparr>studentName = ''Ali'', fullName = ''Ali A''\<rparr>),
      (6, \<lparr>studentName = ''Bilal'', fullName = ''Bilal B''\<rparr>),
      (7, \<lparr>studentName = ''Cem'', fullName = ''Cem C''\<rparr>)]"

text \<open>Class A (\<^verbatim>\<open>_id\<close> 1) is the first document; class B (\<^verbatim>\<open>_id\<close> 2) is full.\<close>

definition twoClassStore :: store where
  "twoClassStore =
     \<lparr>schools = [(9, \<lparr>schoolName = ''S''\<rparr>)], teachers = [], subjects = [(5, \<lparr>subjectName = ''Fiqh''\<rparr>)],
      classes = [(1, mkClass ''A'' None 5 0), (2, mkClass ''B'' None 1 1)],
      students = threeStudents,
      enrollments = [(10, mkEnrollment 5 2 Active)],
      schedules = [], nextId = 100\<rparr>"

definition enrollBilalInB :: createEnrollmentRequest where
  "enrollBilalInB =
     \<lparr>requestStudentId = 6, requestClassId = 2, requestEnrollmentDate = Some ''2024-09-02'',
      requestAcademicYear = ''2024-2025''\<rparr>"

text \<open>Two active enrollments in class A; the second one (\<^verbatim>\<open>_id\<close> 11) is to be transferred.\<close>

definition transferStore :: store where
  "transferStore =
     \<lparr>schools = [(9, \<lparr>schoolName = ''S''\<rparr>)], teachers = [], subjects = [(5, \<lparr>subjectName = ''Fiqh''\<rparr>)],
      classes = [(1, mkClass ''A'' None 5 2), (2, mkClass ''B'' None 5 0)],
      students = threeStudents,
      enrollments = [(10, mkEnrollment 5 1 Active), (11, mkEnrollment 6 1 Active)],
      schedules = [], nextId = 100\<rparr>"

text \<open>One class with two seats and no enrollment yet.\<close>

definition oneClassStore :: store where
  "oneClassStore =
     \<lparr>schools = [(9, \<lparr>schoolName = ''S''\<rparr>)], teachers = [], subjects = [(5, \<lparr>subjectName = ''Fiqh''\<rparr>)],
      classes = [(1, mkClass ''A'' None 2 0)],
      students = threeStudents,
      enrollments = [],
      schedules = [], nextId = 100\<rparr>"

definition enrollAliInA :: createEnrollmentRequest where
  "enrollAliInA =
     \<lparr>requestStudentId = 5, requestClassId = 1, requestEnrollmentDate = Some ''2024-09-02'',
      requestAcademicYear = ''2024-2025''\<rparr>"

text \<open>The same class with Ali enrolled.\<close>

definition enrolledStore :: store where
  "enrolledStore =
     \<lparr>schools = [(9, \<lparr>schoolName = ''S''\<rparr>)], teachers = [], subjects = [(5, \<lparr>subjectName = ''Fiqh''\<rparr>)],
      classes = [(1, mkClass ''A'' None 2 1)],
      students = threeStudents,
      enrollments = [(10, mkEnrollment 5 1 Active)],
      schedules = [], nextId = 100\<rparr>"

text \<open>The ids of the three students and of the two classes, written as ObjectIds.\<close>

definition ali :: scalar where
  "ali = JStr ''000000000000000000000005''"

definition bilal :: scalar where
  "bilal = JStr ''000000000000000000000006''"

definition cem :: scalar where
  "cem = JStr ''000000000000000000000007''"

definition classA :: scalar where
  "classA = JStr ''000000000000000000000001''"

definition classB :: scalar where
  "classB = JStr ''000000000000000000000002''"

text \<open>
  The first class has no teacher; classes B and C share teacher 7. An entry of class B is
  stored; the candidate belongs to class C and overlaps it.
\<close>

definition teacherStore :: store where
  "teacherStore =
     \<lparr>schools = [(9, \<lparr>schoolName = ''S''\<rparr>)],
      teachers = [(7, \<lparr>teacherName = ''Yusuf'', schoolIds = [9]\<rparr>)],
      subjects = [(5, \<lparr>subjectName = ''Fiqh''\<rparr>)],
      classes = [(1, mkClass ''A'' None 5 0), (2, mkClass ''B'' (Some 7) 5 0),
                 (3, mkClass ''C'' (Some 7) 5 0)],
      students = [], enrollments = [],
      schedules = [(20, \<lparr>scheduleClassId = 2, subjectId = 5, dayOfWeek = 1, startTime = ''09:00'',
                         endTime = ''10:30'', room = Some ''R1''\<rparr>)],
      nextId = 100\<rparr>"

definition teacherCandidate :: "ident option classSchedule" where
  "teacherCandidate =
     \<lparr>scheduleClassId = Some (Num 3), subjectId = Some (Num 5), dayOfWeek = 1, startTime = ''10:00'',
      endTime = ''11:00'', room = Some ''R2''\<rparr>"

text \<open>
  A request that replaces the schedule of the only class by one entry that ends before it
  starts, and one whose single entry is for a subject (6) that the class does not have.
\<close>

definition backwardsSchedule :: updateClassRequest where
  "backwardsSchedule =
     \<lparr>updateName = None, updateSchoolId = None, updateTeacherId = None, updateSubjectIds = None,
      updatePrimarySubjectId = None, updateMaxStudents = None, updateClassYear = None,
      updateSchedule =
        Some [\<lparr>itemSubjectId = 5, itemDayOfWeek = 1, itemStartTime = ''10:00'',
               itemEndTime = ''09:00'', itemRoom = None\<rparr>]\<rparr>"

definition foreignSubjectSchedule :: updateClassRequest where
  "foreignSubjectSchedule =
     \<lparr>updateName = None, updateSchoolId = None, updateTeacherId = None, updateSubjectIds = None,
      updatePrimarySubjectId = None, updateMaxStudents = None, updateClassYear = None,
      updateSchedule =
        Some [\<lparr>itemSubjectId = 6, itemDayOfWeek = 1, itemStartTime = ''09:00'',
               itemEndTime = ''10:00'', itemRoom = None\<rparr>]\<rparr>"

text \<open>The first schedule in a request to create a class.\<close>

definition backwardsClass :: createClassRequest where
  "backwardsClass =
     \<lparr>requestName = ''D'', requestSchoolId = 9, requestTeacherId = None, requestSubjectIds = [5],
      requestPrimarySubjectId = None, requestMaxStudents = 10, requestClassYear = ''2024-2025'',
      requestSchedule =
        Some [\<lparr>itemSubjectId = 5, itemDayOfWeek = 1, itemStartTime = ''10:00'',
               itemEndTime = ''09:00'', itemRoom = None\<rparr>]\<rparr>"

section \<open>Facts about the numbers\<close>

lemma roundHalfEven_ge: "\<lfloor>y\<rfloor> \<le> roundHalfEven y"
  by (simp add: roundHalfEven_def Let_def)

text \<open>Rounding keeps the sign, so the comparator of a sort sees the sign of the difference.\<close>

lemma roundDouble_pos: "0 < roundDouble x \<longleftrightarrow> 0 < x"
proof (cases "normalize 2200 \<bar>x\<bar> 0")
  case (Pair y k)
  show ?thesis
  proof (cases "2 ^ 52 \<le> y \<and> y < 2 ^ 53")
    case True
    define c where "c = of_int (roundHalfEven y) * (if 0 \<le> k then (2::real) ^ nat k else 1 / 2 ^ nat (- k))"
    have "(2::int) ^ 52 \<le> \<lfloor>y\<rfloor>"
      using True by (simp add: le_floor_iff)
    moreover have "(0::int) < 2 ^ 52"
      by simp
    ultimately have "0 < roundHalfEven y"
      using roundHalfEven_ge [of y] by linarith
    then have c: "0 < c"
      by (simp add: c_def)
    have "roundDouble x = sgn x * c"
      using Pair True by (simp add: roundDouble_def c_def mult.assoc)
    then show ?thesis
      using c by (simp add: sgn_if zero_less_mult_iff)
  next
    case False
    then show ?thesis using Pair by (auto simp: roundDouble_def)
  qed
qed

lemma normalize_numeral:
  "normalize (numeral n) y k =
     (if y < 2 ^ 52 then normalize (pred_numeral n) (2 * y) (k - 1)
      else if 2 ^ 53 \<le> y then normalize (pred_numeral n) (y / 2) (k + 1)
      else (y, k))"
  by (simp add: numeral_eq_Suc)

lemmas double_eval = roundDouble_def roundHalfEven_def normalize_numeral Let_def

lemma roundDouble_0 [simp]: "roundDouble 0 = 0"
  by (simp add: double_eval)

lemma roundDouble_1 [simp]: "roundDouble 1 = 1"
  by (simp add: double_eval)

lemma roundDouble_3_2 [simp]: "roundDouble (3 / 2) = 3 / 2"
  by (simp add: double_eval)

lemma roundDouble_2 [simp]: "roundDouble 2 = 2"
  by (simp add: double_eval)

lemma roundDouble_3 [simp]: "roundDouble 3 = 3"
  by (simp add: double_eval)

lemma roundDouble_4 [simp]: "roundDouble 4 = 4"
  by (simp add: double_eval)

text \<open>
  Ten minutes are a sixth of an hour, which no double is; six of them do not add up
  to one.
\<close>

lemma roundDouble_sixth: "roundDouble (1 / 6) = 6004799503160661 / 36028797018963968"
  by (simp add: double_eval)

lemma six_sixths:
  "foldl (\<lambda>a h. roundDouble (a + h)) 0 (replicate 6 (roundDouble (1 / 6))) =
     9007199254740991 / 9007199254740992"
  by (simp add: roundDouble_sixth eval_nat_numeral del: normalize.simps) (simp add: double_eval)

section \<open>Identifiers the API hands out are never valid ObjectIds\<close>

lemma length_decimal_le: "0 < k \<Longrightarrow> n < 10 ^ k \<Longrightarrow> length (decimal n) \<le> k"
proof (induction n arbitrary: k rule: decimal.induct)
  case (1 n)
  show ?case
  proof (cases "n < 10")
    case True
    then show ?thesis using "1.prems" by (simp add: decimal.simps [of n])
  next
    case False
    then obtain j where k: "k = Suc j"
      using "1.prems" by (cases k) auto
    have j: "0 < j"
      using False "1.prems" k by (cases j) auto
    have "n div 10 < 10 ^ j"
      using "1.prems" k by (simp add: less_mult_imp_div_less mult.commute)
    then have "length (decimal (n div 10)) \<le> j"
      using "1.IH" [OF False j] by simp
    then show ?thesis
      using False k by (simp add: decimal.simps [of n])
  qed
qed

lemma jsonId_not_valid: "\<not> objectIdIsValid (idToString (Num (jsonId i)))"
proof -
  have "jsonId i < 2 ^ 32"
    by (simp add: jsonId_def)
  also have "(2::nat) ^ 32 < 10 ^ 10"
    by simp
  finally have "length (decimal (jsonId i)) \<le> 10"
    using length_decimal_le [of 10 "jsonId i"] by simp
  then show ?thesis
    by (simp add: objectIdIsValid_def)
qed


lemma findById_head: "findById (d # ds) (fst d) = Some d"
  by (simp add: findById_def)

lemma findOneAndUpdate_head:
  "findOneAndUpdate ix (d # ds) (fst d) (Inr f) =
     (if list_ex (\<lambda>e. ix (snd e) (f (snd d))) ds then Inl DuplicateKey
      else Inr ((fst d, f (snd d)) # ds, Some (fst d, f (snd d))))"
  by (simp add: findOneAndUpdate_def findById_head)

text \<open>
  Claim C10, as amended. For an id that is not a valid ObjectId, \<^verbatim>\<open>getById\<close>,
  \<^verbatim>\<open>update\<close> and \<^verbatim>\<open>delete\<close> act on the first document of a non-empty collection,
  whatever the id says: the read returns it, the update is the update of that document
  (it rewrites it, unless the driver refuses the new contents) and the delete removes it
  and reports success. On an empty collection they report not-found: \<^verbatim>\<open>undefined\<close>,
  \<^verbatim>\<open>undefined\<close> and \<^verbatim>\<open>false\<close>. Every id that \<^verbatim>\<open>toJSON\<close> exposes is such an id.
\<close>

theorem fallback_targets_first_document:
  "\<not> objectIdIsValid (idToString (Num (jsonId k))) \<and>
   (\<not> objectIdIsValid (idToString i) \<longrightarrow>
      getById (d # ds) i = Some d \<and>
      update ix (d # ds) i updates = findOneAndUpdate ix (d # ds) (fst d) updates \<and>
      update ix (d # ds) i (Inl e) = Inl e \<and>
      update ix (d # ds) i (Inr f) =
        (if list_ex (\<lambda>e. ix (snd e) (f (snd d))) ds then Inl DuplicateKey
         else Inr ((fst d, f (snd d)) # ds, Some (fst d, f (snd d)))) \<and>
      delete (d # ds) i = (ds, True) \<and>
      getById ([] :: 'a collection) i = None \<and>
      update ix ([] :: 'a collection) i updates = Inr ([], None) \<and>
      delete ([] :: 'a collection) i = ([], False))"
  using jsonId_not_valid [of k]
  by (simp add: getById_def update_def delete_def findOne_def
      findOneAndUpdate_head deleteOne_def findById_head)
     (simp add: findOneAndUpdate_def)

theorem fallback_targets_first_document_witness:
  "\<not> objectIdIsValid (idToString (Num 2)) \<and>
   getById [(1, ''first''), (2, ''second'')] (Num 2) = Some (1, ''first'') \<and>
   update noIndex [(1, ''first''), (2, ''second'')] (Num 2) (Inr (\<lambda>_. ''new'')) =
     Inr ([(1, ''new''), (2, ''second'')], Some (1, ''new'')) \<and>
   update noIndex [(1, ''first''), (2, ''second'')] (Num 2) (Inl CastError) = Inl CastError \<and>
   delete [(1, ''first''), (2, ''second'')] (Num 2) = ([(2, ''second'')], True)"
proof -
  have inv: "\<not> objectIdIsValid (idToString (Num 2))"
    by (simp add: objectIdIsValid_def decimal.simps)
  show ?thesis
    using inv
      fallback_targets_first_document
        [of 0 "Num 2" "(1, ''first'')" "[(2, ''second'')]" noIndex "Inr (\<lambda>_. ''new'')" CastError
           "\<lambda>_. ''new''"]
    by (simp add: noIndex_def findOneAndUpdate_def findById_def)
qed

text \<open>
  Claim C10 as stated says that such a call never reports not-found. On an empty
  collection it does.
\<close>

theorem fallback_empty_collection_counterexample:
  "\<not> objectIdIsValid (idToString (Num 5)) \<and>
   getById ([] :: string collection) (Num 5) = None \<and>
   update noIndex ([] :: string collection) (Num 5) (Inr (\<lambda>s. s)) = Inr ([], None) \<and>
   delete ([] :: string collection) (Num 5) = ([], False)"
  by (simp add: objectIdIsValid_def decimal.simps getById_def update_def delete_def findOne_def)

text \<open>An ObjectId, used as an id, is valid and denotes itself.\<close>

lemma hexDigit_hexChar: "d < 16 \<Longrightarrow> hexDigit (hexChar d) = Some d"
proof -
  assume "d < 16"
  then have "d = 0 \<or> d = 1 \<or> d = 2 \<or> d = 3 \<or> d = 4 \<or> d = 5 \<or> d = 6 \<or> d = 7 \<or>
             d = 8 \<or> d = 9 \<or> d = 10 \<or> d = 11 \<or> d = 12 \<or> d = 13 \<or> d = 14 \<or> d = 15"
    by arith
  then show ?thesis
    by (elim disjE) (simp_all add: hexDigit_def hexChar_def)
qed

lemma foldl_hex:
  "foldl (\<lambda>a c. 16 * a + (case hexDigit c of Some d \<Rightarrow> d | None \<Rightarrow> 0)) a
     (map (\<lambda>k. hexChar (i div 16 ^ k mod 16)) (rev [0..<n])) = a * 16 ^ n + i mod 16 ^ n"
proof (induction n arbitrary: a)
  case 0
  then show ?case by simp
next
  case (Suc n)
  let ?f = "\<lambda>a c. 16 * a + (case hexDigit c of Some d \<Rightarrow> d | None \<Rightarrow> 0)"
  let ?g = "\<lambda>k. hexChar (i div 16 ^ k mod 16)"
  have d: "hexDigit (hexChar (i div 16 ^ n mod 16)) = Some (i div 16 ^ n mod 16)"
    by (rule hexDigit_hexChar) simp
  have "i mod (16 ^ n * 16) = 16 ^ n * (i div 16 ^ n mod 16) + i mod 16 ^ n"
    by (rule mod_mult2_eq)
  then have h: "i mod 16 ^ Suc n = 16 ^ n * (i div 16 ^ n mod 16) + i mod 16 ^ n"
    by (simp only: power_Suc2)
  have "foldl ?f a (map ?g (rev [0..<Suc n])) =
        foldl ?f (16 * a + i div 16 ^ n mod 16) (map ?g (rev [0..<n]))"
    by (simp add: d)
  also have "\<dots> = (16 * a + i div 16 ^ n mod 16) * 16 ^ n + i mod 16 ^ n"
    by (rule Suc.IH)
  also have "\<dots> = a * 16 ^ Suc n + i mod 16 ^ Suc n"
    unfolding h by (simp add: algebra_simps)
  finally show ?case .
qed

lemma objectIdIsValid_hexText: "objectIdIsValid (hexText i)"
  by (simp add: objectIdIsValid_def hexText_def list_all_iff hexDigit_hexChar)

lemma toObjectId_hexText: "i < 16 ^ 24 \<Longrightarrow> toObjectId (hexText i) = i"
  using foldl_hex [of 0 i 24] by (simp add: toObjectId_def hexText_def)

lemma getById_Oid: "i < 16 ^ 24 \<Longrightarrow> getById c (Oid i) = findById c i"
  by (simp add: getById_def objectIdIsValid_hexText toObjectId_hexText)

text \<open>A number below \<open>10^11\<close> is no ObjectId; the ObjectIds of the example data are.\<close>

lemma small_not_valid: "n < 10 ^ 11 \<Longrightarrow> objectIdIsValid (decimal n) = False"
  using length_decimal_le [of 11 n] by (simp add: objectIdIsValid_def)

lemma hexId_valid:
  "objectIdIsValid ''000000000000000000000001''"
  "objectIdIsValid ''000000000000000000000002''"
  "objectIdIsValid ''000000000000000000000005''"
  "objectIdIsValid ''000000000000000000000006''"
  "objectIdIsValid ''000000000000000000000007''"
  by (simp_all add: objectIdIsValid_def hexDigit_def)

lemma hexId_value:
  "toObjectId ''000000000000000000000001'' = 1"
  "toObjectId ''000000000000000000000002'' = 2"
  "toObjectId ''000000000000000000000005'' = 5"
  "toObjectId ''000000000000000000000006'' = 6"
  "toObjectId ''000000000000000000000007'' = 7"
  by (simp_all add: toObjectId_def hexDigit_def)

lemma object_not_valid: "objectIdIsValid ''[object Object]'' = False"
  by (simp add: objectIdIsValid_def)

text \<open>A populated document, used as an id, is no ObjectId either.\<close>

lemma getById_Doc: "getById c (Doc r) = findOne c"
  by (simp add: getById_def objectIdIsValid_def)

lemma getObjectId_Doc:
  "getObjectId c (Doc r) = (case findOne c of None \<Rightarrow> Inl NoDocuments | Some d \<Rightarrow> Inr (fst d))"
  by (simp add: getObjectId_def objectIdIsValid_def)

lemma findById_fst: "findById c r = Some d \<Longrightarrow> fst d = r"
  by (induction c) (auto simp: findById_def split: if_splits)

lemma populate_cases: "populate c r = None \<or> populate c r = Some (Doc r)"
  by (auto simp: populate_def dest: findById_fst split: option.splits)

lemma sameValue_populate_Val [simp]: "\<not> sameValue (populate c r) (Some (Val v))"
  using populate_cases [of c r] by (cases v) auto

lemma sameValue_Val_populate [simp]: "\<not> sameValue (Some (Val v)) (populate c r)"
  using populate_cases [of c r] by (cases v) auto

section \<open>Overlap of schedule entries\<close>

lemma collect_map_if_filter:
  "collect (map (\<lambda>d. if Q d then g d else Inr []) (filter P xs)) =
   collect (map g (filter (\<lambda>d. P d \<and> Q d) xs))"
  by (induction xs) (auto split: sum.splits)

lemma digitVal_digitOf: "digitOf c = Some d \<Longrightarrow> digitVal c = Some d"
  by (auto simp: digitOf_def digitVal_def split: if_splits)

text \<open>On a text of five characters the date constructor reads the time that is written.\<close>

lemma clockTime_minutes:
  "length t = 5 \<Longrightarrow> minutesSinceMidnight t = Some m \<Longrightarrow> clockTime t = Some m"
proof -
  assume len: "length t = 5" and m: "minutesSinceMidnight t = Some m"
  from len obtain h1 h2 c m1 m2 where t: "t = [h1, h2, c, m1, m2]"
    by (auto simp: length_Suc_conv eval_nat_numeral)
  from m show ?thesis
    unfolding t
    by (auto split: option.splits if_splits dest!: digitVal_digitOf)
qed

lemma overlaps_minutes:
  "twoDigitTimes schedule \<Longrightarrow> twoDigitTimes existing \<Longrightarrow>
   overlaps schedule existing \<longleftrightarrow>
     minutesOf (startTime schedule) < minutesOf (endTime existing) \<and>
     minutesOf (startTime existing) < minutesOf (endTime schedule)"
  by (auto simp: twoDigitTimes_def overlaps_def dateLess_def minutesOf_def Let_def
      dest!: clockTime_minutes)

text \<open>
  With all times written as \<^verbatim>\<open>HH:MM\<close>, the detector looks for conflicts in exactly those
  stored entries that are on the candidate's day, are not the excluded one, and whose
  range overlaps the candidate's in minutes since midnight (\<open>start1 < end2\<close> and
  \<open>start2 < end1\<close>); every other entry contributes no message. Ranges that only touch do
  not overlap.
\<close>

theorem overlap_detection:
  assumes "twoDigitTimes schedule"
    and "\<forall>d \<in> set (allSchedules st). twoDigitTimes (snd d)"
  shows "checkScheduleConflicts st schedule excludeId =
           collect (map (\<lambda>d. conflictMessages st schedule (snd d))
             (filter (\<lambda>d. dayOfWeek (snd d) = dayOfWeek schedule \<and> Some (fst d) \<noteq> excludeId \<and>
                          minutesOf (startTime schedule) < minutesOf (endTime (snd d)) \<and>
                          minutesOf (startTime (snd d)) < minutesOf (endTime schedule))
                (allSchedules st))) \<and>
         (\<forall>d \<in> set (allSchedules st).
            \<not> (minutesOf (startTime schedule) < minutesOf (endTime (snd d)) \<and>
               minutesOf (startTime (snd d)) < minutesOf (endTime schedule)) \<longrightarrow>
            conflictsWith st schedule (snd d) = Inr []) \<and>
         (\<forall>d \<in> set (allSchedules st).
            minutesOf (endTime schedule) = minutesOf (startTime (snd d)) \<or>
            minutesOf (endTime (snd d)) = minutesOf (startTime schedule) \<longrightarrow>
            \<not> overlaps schedule (snd d))"
proof -
  have eq: "\<And>d. d \<in> set (allSchedules st) \<Longrightarrow>
      overlaps schedule (snd d) \<longleftrightarrow>
        minutesOf (startTime schedule) < minutesOf (endTime (snd d)) \<and>
        minutesOf (startTime (snd d)) < minutesOf (endTime schedule)"
    using assms overlaps_minutes by blast
  have "checkScheduleConflicts st schedule excludeId =
      collect (map (\<lambda>d. conflictMessages st schedule (snd d))
        (filter (\<lambda>d. (dayOfWeek (snd d) = dayOfWeek schedule \<and> Some (fst d) \<noteq> excludeId) \<and>
                     overlaps schedule (snd d)) (allSchedules st)))"
    unfolding checkScheduleConflicts_def Let_def conflictsWith_def
    by (rule collect_map_if_filter)
  also have "filter (\<lambda>d. (dayOfWeek (snd d) = dayOfWeek schedule \<and> Some (fst d) \<noteq> excludeId) \<and>
                     overlaps schedule (snd d)) (allSchedules st) =
     filter (\<lambda>d. dayOfWeek (snd d) = dayOfWeek schedule \<and> Some (fst d) \<noteq> excludeId \<and>
                 minutesOf (startTime schedule) < minutesOf (endTime (snd d)) \<and>
                 minutesOf (startTime (snd d)) < minutesOf (endTime schedule))
       (allSchedules st)"
    by (rule filter_cong) (auto simp: eq)
  finally show ?thesis using eq by (auto simp: conflictsWith_def)
qed

text \<open>
  Monday 09:00-10:00 in Hall1 is stored; the candidate is Monday 10:00-11:00 in the
  same room for the same class. The ranges touch, and nothing is reported.
\<close>

theorem overlap_detection_witness:
  "twoDigitTimes hallCandidate \<and>
   list_all (\<lambda>d. twoDigitTimes (snd d)) (allSchedules hallStore) \<and>
   checkScheduleConflicts hallStore hallCandidate None = Inr []"
proof -
  have a: "twoDigitTimes hallCandidate"
    by (simp add: twoDigitTimes_def hallCandidate_def digitOf_def)
  have b: "\<forall>d \<in> set (allSchedules hallStore). twoDigitTimes (snd d)"
    by (simp add: twoDigitTimes_def hallStore_def allSchedules_def getAll_def scheduleJSON_def
        digitOf_def)
  show ?thesis
    using a b overlap_detection [OF a b, of None]
    by (simp add: hallStore_def hallCandidate_def allSchedules_def getAll_def scheduleJSON_def
        minutesOf_def digitOf_def list_all_iff)
qed

section \<open>Room utilization\<close>

lemma map_fst_upd: "map fst (map (\<lambda>(k, u). if k = key then (k, f u) else (k, u)) m) = map fst m"
  by (induction m) auto

lemma map_of_upd:
  "map_of (map (\<lambda>(k, u). if k = key then (k, f u) else (k, u)) m) k' =
     (if k' = key then map_option f (map_of m k') else map_of m k')"
  by (induction m) auto

lemma addSession_keys:
  "map fst (addSession m r sess found) =
     (if map_of m (toLowerCase r) \<noteq> None then map fst m else map fst m @ [toLowerCase r])"
  by (auto simp: addSession_def Let_def map_fst_upd)

lemma addSession_totalHours:
  "map_option totalHours (map_of (addSession m r sess found) k) =
     (if k = toLowerCase r
      then Some (addHours (case map_of m k of None \<Rightarrow> Some 0 | Some u \<Rightarrow> totalHours u) (duration sess))
      else map_option totalHours (map_of m k))"
  by (auto simp: addSession_def Let_def map_of_upd map_add_def split: option.splits)

lemma addSession_label:
  "map_option roomLabel (map_of (addSession m r sess found) k) =
     (case map_of m k of
        Some u \<Rightarrow> Some (roomLabel u)
      | None \<Rightarrow> if k = toLowerCase r then Some r else None)"
  by (auto simp: addSession_def Let_def map_of_upd map_add_def split: option.splits)

text \<open>What a round of the loop that ends without an exception has done.\<close>

lemma duration_sessionOf:
  "duration (sessionOf st c s x) =
     hoursBetween (clockTime (startTime (snd x))) (clockTime (endTime (snd x)))"
  by (simp add: sessionOf_def Let_def)

lemma recordSession_cases:
  assumes "recordSession st m x = Inr m'"
  shows "(\<forall>k. \<not> inRoom k x) \<and> m' = m \<or>
         (\<exists>r sess found. room (snd x) = Some r \<and> r \<noteq> [] \<and>
            duration sess = hoursBetween (clockTime (startTime (snd x))) (clockTime (endTime (snd x))) \<and>
            m' = addSession m r sess found)"
proof (cases "room (snd x) = None \<or> room (snd x) = Some []")
  case True
  then have "m' = m"
    using assms by (auto simp: recordSession_def)
  moreover have "\<forall>k. \<not> inRoom k x"
    using True by (auto simp: inRoom_def)
  ultimately show ?thesis by simp
next
  case False
  then obtain r where r: "room (snd x) = Some r" "r \<noteq> []"
    by (cases "room (snd x)") auto
  obtain c s found where "m' = addSession m r (sessionOf st c s x) found"
    using assms r by (auto simp: recordSession_def split: option.splits sum.splits)
  then show ?thesis
    using r duration_sessionOf by blast
qed

lemma recordSession_distinct:
  "recordSession st m x = Inr m' \<Longrightarrow> distinct (map fst m) \<Longrightarrow> distinct (map fst m')"
  by (drule recordSession_cases) (auto simp: addSession_keys map_of_eq_None_iff)

lemma recordSession_totalHours:
  assumes "recordSession st m x = Inr m'"
  shows "map_option totalHours (map_of m' k) =
     (if inRoom k x
      then Some (addHours (case map_of m k of None \<Rightarrow> Some 0 | Some u \<Rightarrow> totalHours u)
                   (hoursBetween (clockTime (startTime (snd x))) (clockTime (endTime (snd x)))))
      else map_option totalHours (map_of m k))"
  using recordSession_cases [OF assms]
proof (elim disjE conjE exE)
  assume "\<forall>k. \<not> inRoom k x" "m' = m"
  then show ?thesis by simp
next
  fix r sess found
  assume a: "room (snd x) = Some r" "r \<noteq> []"
    "duration sess = hoursBetween (clockTime (startTime (snd x))) (clockTime (endTime (snd x)))"
    "m' = addSession m r sess found"
  have "inRoom k x \<longleftrightarrow> k = toLowerCase r"
    using a by (auto simp: inRoom_def)
  then show ?thesis
    unfolding a(4) addSession_totalHours a(3) by simp
qed

lemma recordSession_label:
  assumes "recordSession st m x = Inr m'"
  shows "map_option roomLabel (map_of m' k) =
     (case map_of m k of
        Some u \<Rightarrow> Some (roomLabel u)
      | None \<Rightarrow> if inRoom k x then room (snd x) else None)"
  using recordSession_cases [OF assms]
proof (elim disjE conjE exE)
  assume "\<forall>k. \<not> inRoom k x" "m' = m"
  then show ?thesis by (simp split: option.splits)
next
  fix r sess found
  assume a: "room (snd x) = Some r" "r \<noteq> []"
    "duration sess = hoursBetween (clockTime (startTime (snd x))) (clockTime (endTime (snd x)))"
    "m' = addSession m r sess found"
  have "inRoom k x \<longleftrightarrow> k = toLowerCase r"
    using a by (auto simp: inRoom_def)
  then show ?thesis
    unfolding a(4) addSession_label using a(1) by (simp split: option.splits)
qed

lemma foldE_Cons:
  "foldE f b (x # xs) = Inr r \<Longrightarrow> \<exists>b'. f b x = Inr b' \<and> foldE f b' xs = Inr r"
  by (auto split: sum.splits)

lemma foldE_keys_distinct:
  "foldE (recordSession st) m xs = Inr m' \<Longrightarrow> distinct (map fst m) \<Longrightarrow> distinct (map fst m')"
proof (induction xs arbitrary: m)
  case Nil
  then show ?case by simp
next
  case (Cons x xs)
  obtain m1 where s: "recordSession st m x = Inr m1" "foldE (recordSession st) m1 xs = Inr m'"
    using foldE_Cons [OF Cons.prems(1)] by blast
  show ?case
    using Cons.IH [OF s(2)] recordSession_distinct [OF s(1) Cons.prems(2)] by simp
qed

lemma present_step:
  assumes "recordSession st m x = Inr m'"
  shows "map_of m' k \<noteq> None \<longleftrightarrow> map_of m k \<noteq> None \<or> inRoom k x"
  using recordSession_label [OF assms, of k]
  by (cases "map_of m' k"; cases "map_of m k") (auto simp: inRoom_def split: if_splits option.splits)

lemma foldE_present:
  "foldE (recordSession st) m xs = Inr m' \<Longrightarrow>
   map_of m' k \<noteq> None \<longleftrightarrow> map_of m k \<noteq> None \<or> (\<exists>x \<in> set xs. inRoom k x)"
proof (induction xs arbitrary: m)
  case Nil
  then show ?case by simp
next
  case (Cons x xs)
  obtain m1 where s: "recordSession st m x = Inr m1" "foldE (recordSession st) m1 xs = Inr m'"
    using foldE_Cons [OF Cons.prems] by blast
  show ?case
    using Cons.IH [OF s(2)] present_step [OF s(1), of k] by auto
qed

lemma soFar_step:
  assumes "recordSession st m x = Inr m'"
  shows "soFar m' k =
     (if inRoom k x
      then addHours (soFar m k) (hoursBetween (clockTime (startTime (snd x))) (clockTime (endTime (snd x))))
      else soFar m k)"
  using recordSession_totalHours [OF assms, of k]
  by (cases "map_of m' k"; cases "map_of m k") (auto simp: soFar_def split: if_splits)

lemma soFar_foldE:
  "foldE (recordSession st) m xs = Inr m' \<Longrightarrow>
   soFar m' k =
     foldl addHours (soFar m k)
       (map (\<lambda>x. hoursBetween (clockTime (startTime (snd x))) (clockTime (endTime (snd x))))
          (filter (inRoom k) xs))"
proof (induction xs arbitrary: m)
  case Nil
  then show ?case by simp
next
  case (Cons x xs)
  obtain m1 where s: "recordSession st m x = Inr m1" "foldE (recordSession st) m1 xs = Inr m'"
    using foldE_Cons [OF Cons.prems] by blast
  show ?case
    using Cons.IH [OF s(2)] soFar_step [OF s(1), of k] by simp
qed

lemma foldE_label:
  "foldE (recordSession st) m xs = Inr m' \<Longrightarrow>
   map_option roomLabel (map_of m' k) =
     (case map_of m k of
        Some u \<Rightarrow> Some (roomLabel u)
      | None \<Rightarrow> (case find (inRoom k) xs of None \<Rightarrow> None | Some x \<Rightarrow> room (snd x)))"
proof (induction xs arbitrary: m)
  case Nil
  then show ?case by (auto split: option.splits)
next
  case (Cons x xs)
  obtain m1 where s: "recordSession st m x = Inr m1" "foldE (recordSession st) m1 xs = Inr m'"
    using foldE_Cons [OF Cons.prems] by blast
  show ?case
    using Cons.IH [OF s(2)] recordSession_label [OF s(1), of k]
    by (cases "map_of m1 k"; cases "map_of m k")
       (auto simp: inRoom_def split: if_splits option.splits)
qed

lemma set_insertBy: "set (insertBy le x ys) = insert x (set ys)"
  by (induction ys) auto

lemma set_sortBy: "set (sortBy le xs) = set xs"
  by (induction xs) (auto simp: sortBy_def set_insertBy)

lemma distinct_map_insertBy:
  "distinct (map f (insertBy le x ys)) \<longleftrightarrow> f x \<notin> f ` set ys \<and> distinct (map f ys)"
  by (induction ys) (auto simp: set_insertBy)

lemma distinct_map_sortBy: "distinct (map f (sortBy le xs)) = distinct (map f xs)"
  by (induction xs) (auto simp: sortBy_def distinct_map_insertBy set_sortBy [unfolded sortBy_def])

lemma sorted_insertBy:
  assumes "\<And>a b. a \<in> insert x (set ys) \<Longrightarrow> b \<in> insert x (set ys) \<Longrightarrow> \<not> le a b \<Longrightarrow> R b a"
    and "\<And>a b. a \<in> insert x (set ys) \<Longrightarrow> b \<in> insert x (set ys) \<Longrightarrow> le a b \<Longrightarrow> R a b"
    and "\<And>a b c. R a b \<Longrightarrow> R b c \<Longrightarrow> R a c"
    and "sorted_wrt R ys"
  shows "sorted_wrt R (insertBy le x ys)"
  using assms
proof (induction ys)
  case Nil
  then show ?case by simp
next
  case (Cons y ys)
  show ?case
  proof (cases "le x y")
    case True
    then have "R x y" using Cons.prems(2) by simp
    moreover have "\<forall>z \<in> set ys. R y z" using Cons.prems(4) by simp
    ultimately have "\<forall>z \<in> set ys. R x z" using Cons.prems(3) by blast
    then show ?thesis using True \<open>R x y\<close> Cons.prems(4) by simp
  next
    case False
    then have yx: "R y x" using Cons.prems(1) by simp
    have "sorted_wrt R (insertBy le x ys)"
    proof (rule Cons.IH)
      show "\<And>a b. a \<in> insert x (set ys) \<Longrightarrow> b \<in> insert x (set ys) \<Longrightarrow> \<not> le a b \<Longrightarrow> R b a"
        using Cons.prems(1) by auto
      show "\<And>a b. a \<in> insert x (set ys) \<Longrightarrow> b \<in> insert x (set ys) \<Longrightarrow> le a b \<Longrightarrow> R a b"
        using Cons.prems(2) by auto
      show "sorted_wrt R ys" using Cons.prems(4) by simp
    qed (use Cons.prems(3) in blast)
    then show ?thesis
      using False yx Cons.prems(4) by (auto simp: set_insertBy)
  qed
qed

lemma sorted_sortBy:
  assumes "\<And>a b. a \<in> set xs \<Longrightarrow> b \<in> set xs \<Longrightarrow> \<not> le a b \<Longrightarrow> R b a"
    and "\<And>a b. a \<in> set xs \<Longrightarrow> b \<in> set xs \<Longrightarrow> le a b \<Longrightarrow> R a b"
    and "\<And>a b c. R a b \<Longrightarrow> R b c \<Longrightarrow> R a c"
  shows "sorted_wrt R (sortBy le xs)"
  using assms(1,2)
proof (induction xs)
  case Nil
  then show ?case by (simp add: sortBy_def)
next
  case (Cons x xs)
  have ih: "sorted_wrt R (sortBy le xs)"
    using Cons by simp
  have "sorted_wrt R (insertBy le x (sortBy le xs))"
  proof (rule sorted_insertBy [where le = le])
    show "\<And>a b. a \<in> insert x (set (sortBy le xs)) \<Longrightarrow> b \<in> insert x (set (sortBy le xs)) \<Longrightarrow> \<not> le a b \<Longrightarrow> R b a"
      using Cons.prems(1) by (simp add: set_sortBy)
    show "\<And>a b. a \<in> insert x (set (sortBy le xs)) \<Longrightarrow> b \<in> insert x (set (sortBy le xs)) \<Longrightarrow> le a b \<Longrightarrow> R a b"
      using Cons.prems(2) by (simp add: set_sortBy)
  qed (use assms(3) ih in auto)
  then show ?case by (simp add: sortBy_def)
qed

lemma foldl_addHours_Some:
  "foldl addHours (Some a) (map (\<lambda>x. Some (f x)) ys) =
     Some (foldl (\<lambda>a h. roundDouble (a + h)) a (map f ys))"
  by (induction ys arbitrary: a) (auto simp: addHours_def)

lemma hoursBetween_twoDigit:
  assumes "twoDigitTimes (snd x)"
  shows "hoursBetween (clockTime (startTime (snd x))) (clockTime (endTime (snd x))) =
           Some (sessionHours x)"
proof -
  obtain a b where ab: "minutesSinceMidnight (startTime (snd x)) = Some a"
      "minutesSinceMidnight (endTime (snd x)) = Some b"
    using assms by (auto simp: twoDigitTimes_def)
  have c: "clockTime (startTime (snd x)) = Some a" "clockTime (endTime (snd x)) = Some b"
    using assms ab by (auto simp: twoDigitTimes_def intro: clockTime_minutes)
  have e: "(real b * 60000 - real a * 60000) / 3600000 = (real b - real a) / 60"
    by (simp add: field_simps)
  show ?thesis
    by (simp only: hoursBetween_def sessionHours_def minutesOf_def ab c option.case e)
qed

lemma usage_of_key:
  assumes "foldE (recordSession st) [] xs = Inr m" and "(k, u) \<in> set m"
  shows "map_of m k = Some u"
  using assms(2) foldE_keys_distinct [OF assms(1)] by simp

lemma usage_label:
  assumes "foldE (recordSession st) [] xs = Inr m" and "(k, u) \<in> set m"
  shows "\<exists>d. find (inRoom k) xs = Some d \<and> room (snd d) = Some (roomLabel u) \<and> toLowerCase (roomLabel u) = k"
proof -
  have "map_of m k = Some u"
    using assms by (rule usage_of_key)
  then have "(case find (inRoom k) xs of None \<Rightarrow> None | Some x \<Rightarrow> room (snd x)) = Some (roomLabel u)"
    using foldE_label [OF assms(1), of k] by simp
  then obtain d where d: "find (inRoom k) xs = Some d" "room (snd d) = Some (roomLabel u)"
    by (auto split: option.splits)
  then have "inRoom k d"
    by (auto simp: find_Some_iff)
  then show ?thesis using d by (auto simp: inRoom_def)
qed

lemma usage_totalHours:
  assumes "foldE (recordSession st) [] xs = Inr m" and "(k, u) \<in> set m"
    and "\<forall>d \<in> set xs. truthyString (room (snd d)) \<longrightarrow> twoDigitTimes (snd d)"
  shows "totalHours u = Some (sumHours (map sessionHours (filter (inRoom k) xs)))"
proof -
  have m: "map_of m k = Some u"
    using assms(1,2) by (rule usage_of_key)
  have eq: "map (\<lambda>x. hoursBetween (clockTime (startTime (snd x))) (clockTime (endTime (snd x))))
          (filter (inRoom k) xs) = map (\<lambda>x. Some (sessionHours x)) (filter (inRoom k) xs)"
    using assms(3)
    by (intro map_cong refl hoursBetween_twoDigit)
       (auto simp: inRoom_def truthyString_def split: option.splits)
  have "totalHours u = soFar m k"
    using m by (simp add: soFar_def)
  also have "\<dots> = foldl addHours (Some 0)
      (map (\<lambda>x. hoursBetween (clockTime (startTime (snd x))) (clockTime (endTime (snd x))))
         (filter (inRoom k) xs))"
    by (subst soFar_foldE [OF assms(1)]) (simp add: soFar_def)
  also have "\<dots> = Some (sumHours (map sessionHours (filter (inRoom k) xs)))"
    by (simp only: eq foldl_addHours_Some sumHours_def)
  finally show ?thesis .
qed

lemma usage_keys:
  assumes "foldE (recordSession st) [] xs = Inr m"
  shows "set (map fst m) = {k. \<exists>d \<in> set xs. inRoom k d}"
proof -
  have "\<And>k. k \<in> set (map fst m) \<longleftrightarrow> (\<exists>d \<in> set xs. inRoom k d)"
    using foldE_present [OF assms] by (simp add: map_of_eq_None_iff)
  then show ?thesis by blast
qed

lemma usage_key_map:
  assumes "foldE (recordSession st) [] xs = Inr m"
  shows "map (\<lambda>u. toLowerCase (roomLabel u)) (map snd m) = map fst m"
proof -
  have "\<And>p. p \<in> set m \<Longrightarrow> toLowerCase (roomLabel (snd p)) = fst p"
    using usage_label [OF assms] by (metis prod.collapse)
  then show ?thesis by (simp add: comp_def)
qed

text \<open>With every class reference leading to a class, no lookup of the detector throws.\<close>

lemma collect_Inr:
  "(\<And>r. r \<in> set rs \<Longrightarrow> \<exists>xs. r = Inr xs) \<Longrightarrow> \<exists>ys. collect rs = Inr ys"
proof (induction rs)
  case Nil
  then show ?case by simp
next
  case (Cons r rs)
  obtain xs where "r = Inr xs" using Cons.prems [of r] by auto
  moreover obtain ys where "collect rs = Inr ys" using Cons by auto
  ultimately show ?case by simp
qed

lemma checkScheduleConflicts_returns:
  assumes "scheduleClassId schedule \<noteq> None"
    and "\<forall>d \<in> set (allSchedules st). scheduleClassId (snd d) \<noteq> None"
  shows "\<exists>found. checkScheduleConflicts st schedule excludeId = Inr found"
  unfolding checkScheduleConflicts_def Let_def
proof (rule collect_Inr)
  fix r
  assume "r \<in> set (map (\<lambda>existing. conflictsWith st schedule (snd existing))
             (filter (\<lambda>s. dayOfWeek (snd s) = dayOfWeek schedule \<and> Some (fst s) \<noteq> excludeId)
                (allSchedules st)))"
  then obtain d where "d \<in> set (allSchedules st)" "r = conflictsWith st schedule (snd d)"
    by auto
  then show "\<exists>xs. r = Inr xs"
    using assms by (auto simp: conflictsWith_def conflictMessages_def Let_def split: option.splits)
qed

lemma recordSession_returns:
  assumes "resolved (snd x)"
    and "\<forall>d \<in> set (allSchedules st). scheduleClassId (snd d) \<noteq> None"
  shows "\<exists>m'. recordSession st m x = Inr m'"
proof -
  obtain found where "checkScheduleConflicts st (snd x) (Some (fst x)) = Inr found"
    using checkScheduleConflicts_returns [OF _ assms(2)] assms(1) by (auto simp: resolved_def)
  then show ?thesis
    using assms(1)
    by (auto simp: recordSession_def resolved_def Let_def split: option.splits)
qed

lemma foldE_recordSession_returns:
  assumes "\<forall>d \<in> set xs. resolved (snd d)"
    and "\<forall>d \<in> set (allSchedules st). scheduleClassId (snd d) \<noteq> None"
  shows "\<exists>m'. foldE (recordSession st) m xs = Inr m'"
  using assms(1)
proof (induction xs arbitrary: m)
  case Nil
  then show ?case by simp
next
  case (Cons x xs)
  obtain m1 where "recordSession st m x = Inr m1"
    using recordSession_returns [OF _ assms(2), of x m] Cons.prems by auto
  then show ?case using Cons.IH [of m1] Cons.prems by simp
qed

text \<open>
  Let every schedule entry refer to a class and a subject that exist, and let the times
  of every entry that names a room be written as \<^verbatim>\<open>HH:MM\<close>. Then the handler returns its
  report, which lists the rooms by total hours, largest first; it has one room per
  lower-cased label occurring among the entries with a non-empty room, and none for the
  others; a room's \<open>totalHours\<close> is the sum of the durations of all entries with its
  lower-cased label, added one after the other as doubles; and it is shown under the
  label of the first such entry.
\<close>

theorem room_totals:
  assumes "\<forall>d \<in> set (allSchedules st).
             resolved (snd d) \<and> (truthyString (room (snd d)) \<longrightarrow> twoDigitTimes (snd d))"
  shows "\<exists>rooms. getRoomUtilization st = Inr rooms \<and>
         sorted_wrt (\<lambda>a b. hoursOf a \<ge> hoursOf b) rooms \<and>
         distinct (map (\<lambda>u. toLowerCase (roomLabel u)) rooms) \<and>
         set (map (\<lambda>u. toLowerCase (roomLabel u)) rooms) =
           {k. \<exists>d \<in> set (allSchedules st). inRoom k d} \<and>
         (\<forall>u \<in> set rooms.
            totalHours u =
              Some (sumHours (map sessionHours
                      (filter (inRoom (toLowerCase (roomLabel u))) (allSchedules st)))) \<and>
            (\<exists>d. find (inRoom (toLowerCase (roomLabel u))) (allSchedules st) = Some d \<and>
                 room (snd d) = Some (roomLabel u)))"
proof -
  have res: "\<forall>d \<in> set (allSchedules st). resolved (snd d)"
    and cls: "\<forall>d \<in> set (allSchedules st). scheduleClassId (snd d) \<noteq> None"
    and wf: "\<forall>d \<in> set (allSchedules st). truthyString (room (snd d)) \<longrightarrow> twoDigitTimes (snd d)"
    using assms by (auto simp: resolved_def)
  obtain m where m: "foldE (recordSession st) [] (allSchedules st) = Inr m"
    using foldE_recordSession_returns [OF res cls] by blast
  define rooms where "rooms = sortBy staysBefore (map snd m)"
  have ret: "getRoomUtilization st = Inr rooms"
    by (simp add: getRoomUtilization_def m rooms_def)
  have each: "\<And>u. u \<in> set rooms \<Longrightarrow> \<exists>k. (k, u) \<in> set m \<and> toLowerCase (roomLabel u) = k"
    using usage_label [OF m] by (fastforce simp: rooms_def set_sortBy)
  have total: "\<And>u. u \<in> set rooms \<Longrightarrow> totalHours u =
      Some (sumHours (map sessionHours (filter (inRoom (toLowerCase (roomLabel u))) (allSchedules st))))"
    using each usage_totalHours [OF m _ wf] by blast
  have label: "\<And>u. u \<in> set rooms \<Longrightarrow>
      \<exists>d. find (inRoom (toLowerCase (roomLabel u))) (allSchedules st) = Some d \<and> room (snd d) = Some (roomLabel u)"
    using each usage_label [OF m] by blast
  have dist: "distinct (map (\<lambda>u. toLowerCase (roomLabel u)) rooms)"
    unfolding rooms_def distinct_map_sortBy usage_key_map [OF m]
    using foldE_keys_distinct [OF m] by simp
  have keys: "set (map (\<lambda>u. toLowerCase (roomLabel u)) rooms) = {k. \<exists>d \<in> set (allSchedules st). inRoom k d}"
  proof -
    have "set (map (\<lambda>u. toLowerCase (roomLabel u)) rooms) =
          set (map (\<lambda>u. toLowerCase (roomLabel u)) (map snd m))"
      by (simp only: rooms_def set_map set_sortBy)
    then show ?thesis by (simp only: usage_key_map [OF m] usage_keys [OF m])
  qed
  have srt: "sorted_wrt (\<lambda>a b. hoursOf a \<ge> hoursOf b) rooms"
    unfolding rooms_def
  proof (rule sorted_sortBy)
    fix a b
    assume "a \<in> set (map snd m)" "b \<in> set (map snd m)" "\<not> staysBefore a b"
    then show "hoursOf a \<le> hoursOf b"
      by (auto simp: staysBefore_def subtractHours_def hoursOf_def roundDouble_pos
          split: option.splits)
  next
    fix a b
    assume "a \<in> set (map snd m)" "b \<in> set (map snd m)"
    then have "a \<in> set rooms" "b \<in> set rooms"
      by (simp_all only: rooms_def set_sortBy)
    then have "totalHours a \<noteq> None" "totalHours b \<noteq> None"
      using total by auto
    moreover assume "staysBefore a b"
    ultimately show "hoursOf b \<le> hoursOf a"
      by (auto simp: staysBefore_def subtractHours_def hoursOf_def roundDouble_pos
          split: option.splits)
  qed auto
  show ?thesis using ret srt dist keys total label by blast
qed

text \<open>
  Two sessions of an hour and a half in ``Hall1'' and ``HALL1'', one of four hours in
  ``Lab'', one entry without a room and one with an empty room.
\<close>

theorem room_totals_witness:
  "list_all (\<lambda>d. resolved (snd d) \<and> (truthyString (room (snd d)) \<longrightarrow> twoDigitTimes (snd d)))
     (allSchedules roomStore) \<and>
   map_sum id (map (\<lambda>u. (roomLabel u, totalHours u, length (sessions u)))) (getRoomUtilization roomStore) =
     Inr [(''Lab'', Some 4, 1), (''Hall1'', Some 3, 2)]"
proof -
  have h: "\<forall>d \<in> set (allSchedules roomStore).
      resolved (snd d) \<and> (truthyString (room (snd d)) \<longrightarrow> twoDigitTimes (snd d))"
    by (simp add: roomStore_def allSchedules_def getAll_def scheduleJSON_def populate_def
        findById_def resolved_def twoDigitTimes_def digitOf_def)
  have ev: "map_sum id (map (\<lambda>u. (roomLabel u, totalHours u, length (sessions u))))
       (getRoomUtilization roomStore) = Inr [(''Lab'', Some 4, 1), (''Hall1'', Some 3, 2)]"
    by (simp add: getRoomUtilization_def roomStore_def allSchedules_def getAll_def scheduleJSON_def
        populate_def findById_def recordSession_def sessionOf_def addSession_def Let_def getById_def findOne_def
        object_not_valid idToString.simps toLowerCase_def lowerChar_def upperLetters_def lowerLetters_def
        hoursBetween_def
        checkScheduleConflicts_def conflictsWith_def overlaps_def dateLess_def digitVal_def
        addHours_def subtractHours_def sortBy_def staysBefore_def roundDouble_pos)
  show ?thesis
    using h ev room_totals [OF h] by (simp add: list_all_iff)
qed

section \<open>Evaluating the handlers\<close>

lemmas database_defs = getById_def getObjectId_def findOne_def findById_def getAll_def create_def
  update_def delete_def deleteOne_def findOneAndUpdate_def small_not_valid hexId_valid hexId_value
  object_not_valid objectIdIsValid_hexText toObjectId_hexText noIndex_def enrollmentIndex_def
  scheduleIndex_def populate_def populateAll_def

lemmas enrollment_defs = createEnrollment_def updateEnrollment_def deleteEnrollment_def
  bulkCreateEnrollments_def enrollOne_def transferStudent_def getEnrollmentsByClassId_def
  updateClassStudentCount_def recountClassOf_def createEnrollmentDoc_def alreadyEnrolled_def
  mapEnrollmentToResponse_def enrollmentJSON_def savedJSON_def classSchool_def
  Let_def jsonId_def

lemmas example_defs = twoClassStore_def transferStore_def oneClassStore_def enrolledStore_def
  threeStudents_def
  mkClass_def mkEnrollment_def enrollBilalInB_def enrollAliInA_def
  ali_def bilal_def cem_def classA_def classB_def
  enrollmentRows_def classCounts_def activeInClass_def statusCode_def

section \<open>The enrollment handlers keep the unique index\<close>


























section \<open>Bulk enrollment\<close>















section \<open>The enrollment handlers on requests of the API\<close>

text \<open>
  The ids that the API shows and accepts are numbers, and no number below \<open>10^11\<close> casts
  to an ObjectId: \<^verbatim>\<open>createEnrollment\<close> never stores anything for such a student id and
  never answers 201.
\<close>

theorem createEnrollment_never_inserts:
  assumes "requestStudentId request < 10 ^ 11"
  shows "fst (createEnrollment st request) = st \<and>
         statusCode (snd (createEnrollment st request)) \<in> {400, 500}"
  using assms
  by (auto simp: createEnrollment_def createEnrollmentDoc_def small_not_valid statusCode_def
      split: option.splits sum.splits)

theorem createEnrollment_never_inserts_witness:
  "requestStudentId enrollAliInA < 10 ^ 11 \<and>
   fst (createEnrollment oneClassStore enrollAliInA) = oneClassStore \<and>
   statusCode (snd (createEnrollment oneClassStore enrollAliInA)) = 500"
proof -
  have h: "requestStudentId enrollAliInA < 10 ^ 11"
    by (simp add: enrollAliInA_def)
  have "statusCode (snd (createEnrollment oneClassStore enrollAliInA)) = 500"
    by (simp add: database_defs enrollment_defs example_defs)
  then show ?thesis
    using h createEnrollment_never_inserts [OF h, of oneClassStore] by simp
qed

text \<open>
  Claim C1 on the code. Ali and class A exist, Ali is not enrolled and the class has two
  free seats: the claim wants an enrollment inserted, the handler answers 500 and
  inserts nothing. Bilal asks for class B, which is full: the claim wants 400 ``Class is
  full'', the capacity that is checked is that of the first class, A, and the answer is
  500. Ali is already enrolled in class A: the claim wants 400 ``Student is already
  enrolled in this class'', the answer is 500. In all three cases the store stays as it
  was.
\<close>

theorem create_enrollment_answers_500:
  "createEnrollment oneClassStore enrollAliInA =
     (oneClassStore, Failure 500 ''Failed to create enrollment'') \<and>
   activeInClass twoClassStore 2 = 1 \<and>
   map (\<lambda>d. (fst d, maxStudents (snd d))) (classes twoClassStore) = [(1, 5), (2, 1)] \<and>
   createEnrollment twoClassStore enrollBilalInB =
     (twoClassStore, Failure 500 ''Failed to create enrollment'') \<and>
   activeCount enrolledStore 5 1 = 1 \<and>
   createEnrollment enrolledStore enrollAliInA =
     (enrolledStore, Failure 500 ''Failed to create enrollment'')"
  by (simp add: database_defs enrollment_defs example_defs activeCount_def)

text \<open>
  Claim C2 on the code. The only enrollment, in class B, is set to inactive. The count is
  recomputed for the first class, A; class B keeps \<open>currentStudents = 1\<close> with no active
  enrollment left.
\<close>

theorem count_recomputed_on_first_class:
  "statusCode (snd (updateEnrollment twoClassStore 10 Inactive)) = 200 \<and>
   enrollmentRows (fst (updateEnrollment twoClassStore 10 Inactive)) = [(10, 5, 2, Inactive)] \<and>
   classCounts (fst (updateEnrollment twoClassStore 10 Inactive)) = [(1, 5, 0), (2, 1, 1)] \<and>
   activeInClass (fst (updateEnrollment twoClassStore 10 Inactive)) 2 = 0"
  by (simp add: database_defs enrollment_defs example_defs)

text \<open>
  Claim C3 on the code. The transfer names enrollment 11 (Bilal, class A) and class B, the
  latter by its ObjectId; class B exists, has room, and Bilal is not enrolled in it. The
  handler reads and updates the first enrollment, 10 (Ali): that one becomes
  transferred and the new enrollment in class B is Ali's, while enrollment 11 stays
  active. The answer is 200. With the number 2 for class B the first enrollment is marked
  transferred as well, then the new enrollment is refused and the answer is 500.
\<close>

theorem transfer_moves_first_enrollment:
  "enrollmentRows transferStore = [(10, 5, 1, Active), (11, 6, 1, Active)] \<and>
   statusCode (snd (transferStudent transferStore ''2025-01-15'' 11 classB)) = 200 \<and>
   enrollmentRows (fst (transferStudent transferStore ''2025-01-15'' 11 classB)) =
     [(10, 5, 1, Transferred), (11, 6, 1, Active), (100, 5, 2, Active)] \<and>
   classCounts (fst (transferStudent transferStore ''2025-01-15'' 11 classB)) =
     [(1, 5, 1), (2, 5, 1)] \<and>
   snd (transferStudent transferStore ''2025-01-15'' 11 (JNum 2)) =
     Failure 500 ''Failed to transfer student'' \<and>
   enrollmentRows (fst (transferStudent transferStore ''2025-01-15'' 11 (JNum 2))) =
     [(10, 5, 1, Transferred), (11, 6, 1, Active)]"
  by (simp add: database_defs enrollment_defs example_defs)

section \<open>At most one active enrollment per student and class\<close>





section \<open>The recount\<close>

text \<open>
  \<^verbatim>\<open>updateClassStudentCount\<close> writes, into the class its id resolves to, the number of
  active enrollments that refer to that class, and changes nothing else.
\<close>

theorem recompute_sets_active_count:
  assumes "getObjectId (classes st) c = Inr i"
  shows "updateClassStudentCount st c =
           Inr (st\<lparr>classes :=
                  (case findById (classes st) i of
                     None \<Rightarrow> classes st
                   | Some d \<Rightarrow> replaceFirst i ((snd d)\<lparr>currentStudents := activeInClass st i\<rparr>) (classes st))\<rparr>)"
  using assms
  by (auto simp: updateClassStudentCount_def findOneAndUpdate_def noIndex_def activeInClass_def
      list_ex_iff Let_def split: option.splits)

text \<open>
  After its only enrollment was set to inactive, class B still says 1. Named by its
  ObjectId, it is recounted to 0.
\<close>

theorem recompute_sets_active_count_witness:
  "getObjectId (classes (fst (updateEnrollment twoClassStore 10 Inactive))) (Val classB) = Inr 2 \<and>
   map_sum id classCounts
     (updateClassStudentCount (fst (updateEnrollment twoClassStore 10 Inactive)) (Val classB)) =
     Inr [(1, 5, 0), (2, 1, 0)]"
proof -
  have g: "getObjectId (classes (fst (updateEnrollment twoClassStore 10 Inactive))) (Val classB) = Inr 2"
    by (simp add: database_defs classB_def)
  show ?thesis
    using g recompute_sets_active_count [OF g]
    by (simp add: database_defs enrollment_defs example_defs)
qed

section \<open>The conflict detector and the room report on the example data\<close>

lemmas schedule_defs = checkScheduleConflicts_def conflictsWith_def conflictMessages_def overlaps_def
  dateLess_def digitVal_def roomConflict_def teacherConflict_def allSchedules_def scheduleJSON_def
  classTeacher_def formatTimeRange_def orElse_def toLowerCase_def lowerChar_def upperLetters_def
  lowerLetters_def Let_def

text \<open>
  Claim C5 on the code. Monday 09:00-10:00 in Hall1 is stored. The candidate is Monday
  9:30-9:45 in Hall1, with the hour written as the format check of the handlers admits
  it. In minutes since midnight, 570 to 585 lies inside 540 to 600, so the claim wants
  the two found overlapping; the detector does not find them overlapping and reports
  nothing. The same candidate written 09:30-09:45 is reported.
\<close>

theorem one_digit_hour_never_overlaps:
  "matchesTimeFormat ''9:30'' \<and> matchesTimeFormat ''9:45'' \<and>
   minutesSinceMidnight ''9:30'' = Some 570 \<and> minutesSinceMidnight ''9:45'' = Some 585 \<and>
   map (\<lambda>d. (dayOfWeek (snd d), minutesSinceMidnight (startTime (snd d)),
              minutesSinceMidnight (endTime (snd d)), room (snd d))) (schedules hallStore) =
     [(1, Some 540, Some 600, Some ''Hall1'')] \<and>
   dayOfWeek shortCandidate = 1 \<and> startTime shortCandidate = ''9:30'' \<and>
   endTime shortCandidate = ''9:45'' \<and>
   \<not> overlaps shortCandidate (snd (hd (schedules hallStore))) \<and>
   checkScheduleConflicts hallStore shortCandidate None = Inr [] \<and>
   checkScheduleConflicts hallStore paddedCandidate None =
     Inr [''Room conflict: Hall1 is already booked at 09:00 - 10:00 for class A'']"
  by (simp add: database_defs schedule_defs hallStore_def shortCandidate_def paddedCandidate_def
      digitIn_def digitOf_def)

text \<open>
  Claim C6 on the code. The stored entry belongs to class B and the candidate to class C;
  both classes have teacher 7 and the entries overlap on Monday. Both class lookups
  return the first class, A, which has no teacher: no teacher conflict is reported.
\<close>

theorem shared_teacher_not_reported:
  "map (\<lambda>d. (fst d, teacherId (snd d))) (classes teacherStore) = [(1, None), (2, Some 7), (3, Some 7)] \<and>
   map (\<lambda>d. scheduleClassId (snd d)) (schedules teacherStore) = [2] \<and>
   scheduleClassId teacherCandidate = Some (Num 3) \<and>
   overlaps teacherCandidate (snd (hd (schedules teacherStore))) \<and>
   checkScheduleConflicts teacherStore teacherCandidate None = Inr []"
  by (simp add: database_defs schedule_defs teacherStore_def teacherCandidate_def mkClass_def)

lemma populate_Doc: "populate c r = Some x \<Longrightarrow> x = Doc r"
  using populate_cases [of c r] by auto

text \<open>
  The teachers of two classes are compared as the two objects that \<^verbatim>\<open>populate\<close> has put
  in their place: no pair of entries ever gets a teacher-conflict message.
\<close>

theorem teacher_conflict_never_reported:
  "teacherConflict st existingClass newClass existing = []"
  by (auto simp: teacherConflict_def classTeacher_def split: option.splits dest!: populate_Doc)

text \<open>
  For a pair of entries the detector finds to overlap and whose class references are
  not \<^verbatim>\<open>null\<close>, a room conflict is reported, once, exactly when both entries name a
  non-empty room and the labels agree up to case.
\<close>

theorem room_conflict_iff:
  assumes "overlaps schedule existing"
    and "scheduleClassId schedule = Some c" and "scheduleClassId existing = Some e"
  shows "conflictsWith st schedule existing =
           Inr (roomConflict (getById (classes st) e) schedule existing @
                teacherConflict st (getById (classes st) e) (getById (classes st) c) existing) \<and>
         (roomConflict (getById (classes st) e) schedule existing \<noteq> [] \<longleftrightarrow>
            (\<exists>a b. room existing = Some a \<and> room schedule = Some b \<and> a \<noteq> [] \<and> b \<noteq> [] \<and>
                   toLowerCase a = toLowerCase b)) \<and>
         length (roomConflict (getById (classes st) e) schedule existing) \<le> 1"
  using assms
  by (auto simp: conflictsWith_def conflictMessages_def roomConflict_def Let_def split: option.splits)

theorem room_conflict_iff_witness:
  "overlaps lateCandidate (snd (scheduleJSON hallStore (hd (schedules hallStore)))) \<and>
   scheduleClassId lateCandidate = Some (Num 1) \<and>
   scheduleClassId (snd (scheduleJSON hallStore (hd (schedules hallStore)))) = Some (Doc 1) \<and>
   conflictsWith hallStore lateCandidate (snd (scheduleJSON hallStore (hd (schedules hallStore)))) =
     Inr [''Room conflict: hall1 is already booked at 09:00 - 10:00 for class A'']"
proof -
  have o: "overlaps lateCandidate (snd (scheduleJSON hallStore (hd (schedules hallStore))))"
    by (simp add: overlaps_def dateLess_def digitVal_def hallStore_def lateCandidate_def
        scheduleJSON_def)
  have c: "scheduleClassId lateCandidate = Some (Num 1)"
    by (simp add: lateCandidate_def)
  have e: "scheduleClassId (snd (scheduleJSON hallStore (hd (schedules hallStore)))) = Some (Doc 1)"
    by (simp add: database_defs hallStore_def scheduleJSON_def)
  show ?thesis
    using o c e room_conflict_iff [OF o c e, of hallStore]
    by (simp add: database_defs schedule_defs hallStore_def lateCandidate_def)
qed


section \<open>Schedule validation when a class is created or updated\<close>

lemmas class_defs = updateClass_def updateClassSchema_def createClass_def createClassSchema_def
  scheduleSchema_def digitIn_def digitVal_def truthyNumber_def teacherError_def classSet_def
  castClassUpdates_def castOptional_def orField_def classSchool_def validateScheduleTime_def
  dateLess_def Let_def

lemma scheduleError_bad:
  "\<exists>item \<in> set items. \<not> validateScheduleTime (itemStartTime item) (itemEndTime item) \<or>
       itemSubjectId item \<notin> set ids \<Longrightarrow> scheduleError ids items \<noteq> None"
  by (induction items) auto

text \<open>
  \<^verbatim>\<open>createClass\<close> refuses a request whose schedule has an entry that does not start before
  it ends, or whose subject is not among the class's subjects: the answer is 400 and
  nothing is stored.
\<close>

theorem createClass_rejects_bad_schedule:
  assumes "requestSchedule classData = Some items"
    and "\<exists>item \<in> set items. \<not> validateScheduleTime (itemStartTime item) (itemEndTime item) \<or>
           itemSubjectId item \<notin> set (requestSubjectIds classData)"
  shows "statusCode (snd (createClass st classData)) = 400 \<and> fst (createClass st classData) = st"
proof -
  obtain m where "scheduleError (requestSubjectIds classData) items = Some m"
    using scheduleError_bad [OF assms(2)] by auto
  then show ?thesis
    using assms(1)
    by (auto simp: createClass_def statusCode_def Let_def split: option.splits)
qed

theorem createClass_rejects_bad_schedule_witness:
  "requestSchedule backwardsClass =
     Some [\<lparr>itemSubjectId = 5, itemDayOfWeek = 1, itemStartTime = ''10:00'',
            itemEndTime = ''09:00'', itemRoom = None\<rparr>] \<and>
   \<not> validateScheduleTime ''10:00'' ''09:00'' \<and>
   statusCode (snd (createClass oneClassStore backwardsClass)) = 400 \<and>
   fst (createClass oneClassStore backwardsClass) = oneClassStore"
proof -
  have a: "requestSchedule backwardsClass =
      Some [\<lparr>itemSubjectId = 5, itemDayOfWeek = 1, itemStartTime = ''10:00'',
             itemEndTime = ''09:00'', itemRoom = None\<rparr>]"
    by (simp add: backwardsClass_def)
  have v: "\<not> validateScheduleTime ''10:00'' ''09:00''"
    by (simp add: validateScheduleTime_def dateLess_def digitVal_def)
  have b: "\<exists>item \<in> set [\<lparr>itemSubjectId = 5, itemDayOfWeek = 1, itemStartTime = ''10:00'',
             itemEndTime = ''09:00'', itemRoom = None\<rparr>].
        \<not> validateScheduleTime (itemStartTime item) (itemEndTime item) \<or>
        itemSubjectId item \<notin> set (requestSubjectIds backwardsClass)"
    using v by simp
  show ?thesis
    using a v createClass_rejects_bad_schedule [OF a b, of oneClassStore] by simp
qed

text \<open>
  Claim C7 on the code. \<^verbatim>\<open>updateClass\<close> has no such check. The new schedule of class A has
  one entry, which ends before it starts; the request passes the schema. The claim wants
  400; the handler hands the schedule to the store with the update of the class, the
  store cannot cast the entry's subject id, and the answer is 500. The same happens to
  a schedule whose entry is for a subject that the class does not have. Nothing is
  stored either time.
\<close>

theorem update_answers_500_for_bad_schedule:
  "updateClassSchema backwardsSchedule \<and> \<not> validateScheduleTime ''10:00'' ''09:00'' \<and>
   updateClass oneClassStore 1 backwardsSchedule =
     (oneClassStore, Failure 500 ''Failed to update class'') \<and>
   updateClassSchema foreignSubjectSchedule \<and>
   subjectIds (snd (hd (classes oneClassStore))) = [5] \<and>
   map itemSubjectId (case updateSchedule foreignSubjectSchedule of None \<Rightarrow> [] | Some items \<Rightarrow> items) = [6] \<and>
   updateClass oneClassStore 1 foreignSubjectSchedule =
     (oneClassStore, Failure 500 ''Failed to update class'')"
  by (simp add: database_defs example_defs class_defs backwardsSchedule_def
      foreignSubjectSchedule_def)

text \<open>
  No schedule with an entry reaches the store through \<^verbatim>\<open>updateClass\<close>: when the subject
  id of the first entry is a number below \<open>10^11\<close>, the store is left as it was and the
  answer is not 200.
\<close>

lemma classSet_schedule:
  "updateSchedule u = Some (item # items) \<Longrightarrow> itemSubjectId item < 10 ^ 11 \<Longrightarrow>
   \<exists>e. classSet u = Inl e"
  by (auto simp: classSet_def castClassUpdates_def small_not_valid split: sum.splits)

lemma update_Inl:
  "update ix c i (Inl e) = Inl e \<or> update ix c i (Inl e) = Inr (c, None)"
  by (auto simp: update_def findOneAndUpdate_def split: option.splits)

theorem updateClass_stores_no_schedule:
  assumes "updateSchedule updateData = Some (item # items)" and "itemSubjectId item < 10 ^ 11"
  shows "fst (updateClass st i updateData) = st \<and>
         statusCode (snd (updateClass st i updateData)) \<noteq> 200"
proof -
  obtain e where e: "classSet updateData = Inl e"
    using classSet_schedule [OF assms] by blast
  have "st\<lparr>classes := classes st\<rparr> = st"
    by simp
  then show ?thesis
    using update_Inl [of noIndex "classes st" "Num i" e]
    by (auto simp: updateClass_def e statusCode_def Let_def split: option.splits)
qed

theorem updateClass_stores_no_schedule_witness:
  "updateSchedule foreignSubjectSchedule =
     Some [\<lparr>itemSubjectId = 6, itemDayOfWeek = 1, itemStartTime = ''09:00'',
            itemEndTime = ''10:00'', itemRoom = None\<rparr>] \<and>
   (6::nat) < 10 ^ 11 \<and>
   fst (updateClass oneClassStore 1 foreignSubjectSchedule) = oneClassStore \<and>
   statusCode (snd (updateClass oneClassStore 1 foreignSubjectSchedule)) \<noteq> 200"
proof -
  have a: "updateSchedule foreignSubjectSchedule =
      Some [\<lparr>itemSubjectId = 6, itemDayOfWeek = 1, itemStartTime = ''09:00'',
             itemEndTime = ''10:00'', itemRoom = None\<rparr>]"
    by (simp add: foreignSubjectSchedule_def)
  have b: "itemSubjectId \<lparr>itemSubjectId = 6, itemDayOfWeek = 1, itemStartTime = ''09:00'',
             itemEndTime = ''10:00'', itemRoom = None\<rparr> < 10 ^ 11"
    by simp
  show ?thesis
    using a updateClass_stores_no_schedule [OF a b, of oneClassStore 1] by simp
qed

end
